theory Spec2Isabelle
  imports Main
begin

section \<open>Exceptions and logging\<close>

text \<open>
  Every exception the modelled code can raise or receive is a value of \<open>exn\<close>. All of
  them are subclasses of Python's \<open>Exception\<close>; the HTTP exceptions of
  \<open>core/exceptions/http_exceptions.py\<close> are the constructors carrying a detail string.
\<close>

datatype exn =
    PyException string
  | ZeroDivisionError
  | TypeError string
  | RedisError string
  | JWTError string
  | IntegrityError string
  | OperationalError string
  | UnauthorizedException string
  | ForbiddenException string
  | NotFoundException string
  | DuplicateValueException string
  | RateLimitException string

text \<open>\<open>isinstance(e, HTTPException)\<close> and \<open>e.status_code\<close>.\<close>

fun status_code :: "exn \<Rightarrow> int option" where
  "status_code (UnauthorizedException d) = Some 401"
| "status_code (ForbiddenException d) = Some 403"
| "status_code (NotFoundException d) = Some 404"
| "status_code (DuplicateValueException d) = Some 422"
| "status_code (RateLimitException d) = Some 429"
| "status_code e = None"

text \<open>\<open>str(e)\<close> for \<open>Exception\<close> subclasses and \<open>e.detail\<close> for HTTP exceptions.\<close>

fun str_exn :: "exn \<Rightarrow> string" where
  "str_exn (PyException m) = m"
| "str_exn ZeroDivisionError = ''integer modulo by zero''"
| "str_exn (TypeError m) = m"
| "str_exn (RedisError m) = m"
| "str_exn (JWTError m) = m"
| "str_exn (IntegrityError m) = m"
| "str_exn (OperationalError m) = m"
| "str_exn (UnauthorizedException d) = d"
| "str_exn (ForbiddenException d) = d"
| "str_exn (NotFoundException d) = d"
| "str_exn (DuplicateValueException d) = d"
| "str_exn (RateLimitException d) = d"

datatype log_entry = LogError string | LogWarning string | LogException string

section \<open>Rendering integers in f-strings\<close>

definition digit_char :: "nat \<Rightarrow> char" where
  "digit_char d = ''0123456789'' ! d"

fun str_nat :: "nat \<Rightarrow> string" where
  "str_nat n = (if n < 10 then [digit_char n] else str_nat (n div 10) @ [digit_char (n mod 10)])"

declare str_nat.simps [simp del]

text \<open>Python's \<open>str\<close> on an \<open>int\<close>.\<close>

definition str_int :: "int \<Rightarrow> string" where
  "str_int i = (if i < 0 then CHR ''-'' # str_nat (nat (- i)) else str_nat (nat i))"

section \<open>Path sanitising (schemas/rate\_limit.py)\<close>

text \<open>
  \<open>path.strip("/")\<close> drops every leading and every trailing slash;
  \<open>.replace("/", "_")\<close> rewrites the slashes that are left. The two characters are
  ASCII, so working on bytes or on code points gives the same result.
\<close>

definition strip_slashes :: "string \<Rightarrow> string" where
  "strip_slashes s =
     rev (dropWhile (\<lambda>c. c = CHR ''/'') (rev (dropWhile (\<lambda>c. c = CHR ''/'') s)))"

definition replace_slashes :: "string \<Rightarrow> string" where
  "replace_slashes s = map (\<lambda>c. if c = CHR ''/'' then CHR ''_'' else c) s"

definition sanitize_path :: "string \<Rightarrow> string" where
  "sanitize_path path = replace_slashes (strip_slashes path)"

section \<open>The counter store\<close>

text \<open>
  Modelled from the spec: the Redis client (\<open>redis.asyncio.Redis\<close>) is a library outside
  the repository. The spec gives it as a key/value store with an atomic \<open>increment\<close> and an
  \<open>expire\<close>, whose keys disappear once their time to live has passed, and which may be
  unreachable. An entry is a counter with an optional deadline in epoch seconds; a key whose
  deadline has passed reads as absent. One clock, in whole seconds, serves the application
  and the store.
\<close>

record redis =
  reachable :: bool
  entries :: "string \<Rightarrow> (int \<times> int option) option"

definition live_entry :: "redis \<Rightarrow> int \<Rightarrow> string \<Rightarrow> (int \<times> int option) option" where
  "live_entry r now key =
     (case entries r key of
        None \<Rightarrow> None
      | Some (v, None) \<Rightarrow> Some (v, None)
      | Some (v, Some deadline) \<Rightarrow> if now < deadline then Some (v, Some deadline) else None)"

text \<open>\<open>INCR key\<close>: an absent key counts from zero; the new value is returned.\<close>

definition redis_incr :: "int \<Rightarrow> string \<Rightarrow> redis \<Rightarrow> exn + (int \<times> redis)" where
  "redis_incr now key r =
     (if \<not> reachable r then Inl (RedisError ''Error connecting to the store.'')
      else case live_entry r now key of
             None \<Rightarrow> Inr (1, r\<lparr>entries := (entries r)(key \<mapsto> (1, None))\<rparr>)
           | Some (v, d) \<Rightarrow> Inr (v + 1, r\<lparr>entries := (entries r)(key \<mapsto> (v + 1, d))\<rparr>))"

text \<open>\<open>EXPIRE key seconds\<close>: a timeout that is not positive deletes the key.\<close>

definition redis_expire :: "int \<Rightarrow> string \<Rightarrow> int \<Rightarrow> redis \<Rightarrow> exn + redis" where
  "redis_expire now key seconds r =
     (if \<not> reachable r then Inl (RedisError ''Error connecting to the store.'')
      else case live_entry r now key of
             None \<Rightarrow> Inr r
           | Some (v, d) \<Rightarrow>
               if seconds \<le> 0 then Inr (r\<lparr>entries := (entries r)(key := None)\<rparr>)
               else Inr (r\<lparr>entries := (entries r)(key \<mapsto> (v, Some (now + seconds)))\<rparr>))"

section \<open>The rate-limit check (core/utils/rate\_limit.py)\<close>

text \<open>
  The module globals: the Redis \<open>client\<close> (\<open>None\<close> until start-up has set it) and what
  the module loggers have written. A call returns its outcome together with the globals as
  they are afterwards, so that a raise keeps the log lines written before it.
\<close>

record globals =
  client :: "redis option"
  log :: "log_entry list"

definition logger :: "log_entry \<Rightarrow> globals \<Rightarrow> globals" where
  "logger e g = g\<lparr>log := log g @ [e]\<rparr>"

text \<open>
  \<open>user_id\<close> is \<open>user["id"]\<close> for an authenticated user and \<open>request.client.host\<close>
  otherwise; the f-string renders either.
\<close>

datatype identity = UserId int | ClientHost string

fun str_identity :: "identity \<Rightarrow> string" where
  "str_identity (UserId i) = str_int i"
| "str_identity (ClientHost h) = h"

definition ratelimit_key :: "identity \<Rightarrow> string \<Rightarrow> int \<Rightarrow> string" where
  "ratelimit_key user_id sanitized_path window_start =
     ''ratelimit:'' @ str_identity user_id @ '':'' @ sanitized_path @ '':'' @ str_int window_start"

text \<open>
  \<open>now\<close> is \<open>int(datetime.now(UTC).timestamp())\<close>. Python's \<open>%\<close> on integers is the
  floored remainder, as \<open>mod\<close> on \<open>int\<close> is, and raises on a zero divisor, outside the
  \<open>try\<close> block.
\<close>

definition is_rate_limited ::
  "int \<Rightarrow> identity \<Rightarrow> string \<Rightarrow> int \<Rightarrow> int \<Rightarrow> globals \<Rightarrow> (exn + bool) \<times> globals" where
  "is_rate_limited now user_id path limit period g =
     (case client g of
        None \<Rightarrow>
          (Inl (PyException ''Redis client is not initialized.''),
           logger (LogError ''Redis client is not initialized.'') g)
      | Some r \<Rightarrow>
          if period = 0 then (Inl ZeroDivisionError, g)
          else
            let current_timestamp = now;
                window_start = current_timestamp - (current_timestamp mod period);
                sanitized_path = sanitize_path path;
                key = ratelimit_key user_id sanitized_path window_start;
                failed = (\<lambda>e. LogException (''Error checking rate limit for user ''
                            @ str_identity user_id @ '' on path '' @ path @ '': '' @ str_exn e))
            in case redis_incr now key r of
                 Inl e \<Rightarrow> (Inl e, logger (failed e) g)
               | Inr (current_count, r1) \<Rightarrow>
                   (case (if current_count = 1 then redis_expire now key period r1 else Inr r1) of
                      Inl e \<Rightarrow> (Inl e, logger (failed e) (g\<lparr>client := Some r1\<rparr>))
                    | Inr r2 \<Rightarrow> (Inr (limit < current_count), g\<lparr>client := Some r2\<rparr>)))"

text \<open>A client sending one request after another: the outcomes in order, and the globals left.\<close>

fun request_sequence ::
  "identity \<Rightarrow> string \<Rightarrow> int \<Rightarrow> int \<Rightarrow> int list \<Rightarrow> globals \<Rightarrow> (exn + bool) list \<times> globals" where
  "request_sequence user_id path limit period [] g = ([], g)"
| "request_sequence user_id path limit period (t # ts) g =
     (case is_rate_limited t user_id path limit period g of
        (outcome, g1) \<Rightarrow>
          (case request_sequence user_id path limit period ts g1 of
             (outcomes, g2) \<Rightarrow> (outcome # outcomes, g2)))"

section \<open>The persistent store\<close>

text \<open>
  The tables of \<open>models/tier.py\<close>, \<open>models/rate_limit.py\<close>, \<open>models/user.py\<close> and
  \<open>core/db/token_blacklist.py\<close>, with the columns the modelled code reads or writes
  (the time stamps \<open>created_at\<close> and \<open>updated_at\<close> are left out; \<open>expires_at\<close> is kept as
  epoch seconds). Field names carry the table as a prefix.
\<close>

record tier_row =
  t_id :: int
  t_name :: string

record rate_limit_row =
  rl_id :: int
  rl_tier_id :: int
  rl_name :: string
  rl_path :: string
  rl_limit :: int
  rl_period :: int

record user_row =
  u_id :: int
  u_username :: string
  u_email :: string
  u_is_deleted :: bool
  u_is_superuser :: bool
  u_tier_id :: "int option"

record token_blacklist_row =
  tb_id :: int
  tb_token :: string
  tb_expires_at :: int

text \<open>
  \<open>fault\<close> is set when the database cannot serve the session: every query then raises.
  The two \<open>next_\<close> fields are the auto-increment sequences of the tables the modelled
  code inserts into.
\<close>

record database =
  fault :: "string option"
  tiers :: "tier_row list"
  rate_limits :: "rate_limit_row list"
  users :: "user_row list"
  token_blacklist :: "token_blacklist_row list"
  next_rate_limit_id :: int
  next_token_blacklist_id :: int

text \<open>
  Modelled from the spec: the repository objects \<open>crud_tiers\<close>, \<open>crud_rate_limits\<close>,
  \<open>crud_users\<close> and \<open>crud_token_blacklist\<close> (\<open>crud/*.py\<close>, each an instance of the generic
  repository over one table) expose \<open>get\<close>, \<open>exists\<close>, \<open>create\<close>, \<open>update\<close> and \<open>delete\<close>
  over rows filtered by field predicates. \<open>get\<close> gives the first matching row or \<open>None\<close>,
  \<open>exists\<close> says whether a row matches. The keyword filters of a call are the predicate.
\<close>

definition crud_get :: "database \<Rightarrow> 'row list \<Rightarrow> ('row \<Rightarrow> bool) \<Rightarrow> exn + 'row option" where
  "crud_get db rows matches =
     (case fault db of
        Some m \<Rightarrow> Inl (OperationalError m)
      | None \<Rightarrow> Inr (find matches rows))"

definition crud_exists :: "database \<Rightarrow> 'row list \<Rightarrow> ('row \<Rightarrow> bool) \<Rightarrow> exn + bool" where
  "crud_exists db rows matches =
     (case fault db of
        Some m \<Rightarrow> Inl (OperationalError m)
      | None \<Rightarrow> Inr (list_ex matches rows))"

text \<open>
  The request bodies of \<open>schemas/rate_limit.py\<close>. \<open>RateLimitCreate.name\<close> defaults to
  \<open>None\<close>; in \<open>RateLimitUpdate\<close> a field that is \<open>None\<close> is one the request leaves out.
  The field validators have sanitised \<open>path\<close> before the endpoint sees the body.
\<close>

record RateLimitCreate =
  create_path :: string
  create_limit :: int
  create_period :: int
  create_name :: "string option"

record RateLimitUpdate =
  update_path :: "string option"
  update_limit :: "int option"
  update_period :: "int option"
  update_name :: "string option"

definition RateLimitCreate_validated :: "RateLimitCreate \<Rightarrow> RateLimitCreate" where
  "RateLimitCreate_validated body = body\<lparr>create_path := sanitize_path (create_path body)\<rparr>"

definition RateLimitUpdate_validated :: "RateLimitUpdate \<Rightarrow> RateLimitUpdate" where
  "RateLimitUpdate_validated body = body\<lparr>update_path := map_option sanitize_path (update_path body)\<rparr>"

text \<open>
  \<open>crud_rate_limits.create\<close> with a \<open>RateLimitCreateInternal\<close> (the body and the
  \<open>tier_id\<close>). The table declares \<open>name\<close> as \<open>nullable=False, unique=True\<close>, and no
  constraint over \<open>tier_id\<close> and \<open>path\<close>: an insert that breaks a declared constraint
  raises and leaves the table as it was.
\<close>

definition crud_rate_limits_create ::
  "database \<Rightarrow> RateLimitCreate \<Rightarrow> int \<Rightarrow> (exn + rate_limit_row) \<times> database" where
  "crud_rate_limits_create db object object_tier_id =
     (case fault db of
        Some m \<Rightarrow> (Inl (OperationalError m), db)
      | None \<Rightarrow>
          (case create_name object of
             None \<Rightarrow> (Inl (IntegrityError ''null value in column name''), db)
           | Some n \<Rightarrow>
               if list_ex (\<lambda>r. rl_name r = n) (rate_limits db)
               then (Inl (IntegrityError ''duplicate value in unique column name''), db)
               else
                 let row = \<lparr>rl_id = next_rate_limit_id db, rl_tier_id = object_tier_id, rl_name = n,
                            rl_path = create_path object, rl_limit = create_limit object,
                            rl_period = create_period object\<rparr>
                 in (Inr row, db\<lparr>rate_limits := rate_limits db @ [row],
                                  next_rate_limit_id := next_rate_limit_id db + 1\<rparr>)))"

text \<open>The fields that the update sets replace the row's; the others stay.\<close>

definition apply_update :: "RateLimitUpdate \<Rightarrow> rate_limit_row \<Rightarrow> rate_limit_row" where
  "apply_update object r =
     r\<lparr>rl_path := (case update_path object of None \<Rightarrow> rl_path r | Some p \<Rightarrow> p),
       rl_limit := (case update_limit object of None \<Rightarrow> rl_limit r | Some l \<Rightarrow> l),
       rl_period := (case update_period object of None \<Rightarrow> rl_period r | Some p \<Rightarrow> p),
       rl_name := (case update_name object of None \<Rightarrow> rl_name r | Some n \<Rightarrow> n)\<rparr>"

text \<open>
  \<open>crud_rate_limits.update(db, object, id=...)\<close>: the rows with that primary key are
  rewritten, unless the new name is the name of another row (the unique constraint).
\<close>

definition crud_rate_limits_update ::
  "database \<Rightarrow> RateLimitUpdate \<Rightarrow> int \<Rightarrow> (exn + unit) \<times> database" where
  "crud_rate_limits_update db object target_id =
     (case fault db of
        Some m \<Rightarrow> (Inl (OperationalError m), db)
      | None \<Rightarrow>
          if list_ex (\<lambda>r. rl_id r = target_id) (rate_limits db)
             \<and> list_ex (\<lambda>r. rl_id r \<noteq> target_id \<and> Some (rl_name r) = update_name object) (rate_limits db)
          then (Inl (IntegrityError ''duplicate value in unique column name''), db)
          else (Inr (), db\<lparr>rate_limits :=
                  map (\<lambda>r. if rl_id r = target_id then apply_update object r else r) (rate_limits db)\<rparr>))"

text \<open>\<open>crud_rate_limits.delete(db, id=...)\<close>: the table has no soft-delete column.\<close>

definition crud_rate_limits_delete :: "database \<Rightarrow> int \<Rightarrow> (exn + unit) \<times> database" where
  "crud_rate_limits_delete db target_id =
     (case fault db of
        Some m \<Rightarrow> (Inl (OperationalError m), db)
      | None \<Rightarrow> (Inr (), db\<lparr>rate_limits := filter (\<lambda>r. rl_id r \<noteq> target_id) (rate_limits db)\<rparr>))"


section \<open>The rate-limit endpoints (api/v1/rate\_limits.py)\<close>

text \<open>
  Each endpoint returns its outcome and the database as the call leaves it. The
  \<open>get_current_superuser\<close> dependency of the three writing routes runs before the
  endpoint and is not part of it.
\<close>

definition write_rate_limit ::
  "string \<Rightarrow> RateLimitCreate \<Rightarrow> database \<Rightarrow> (exn + rate_limit_row) \<times> database" where
  "write_rate_limit tier_name rate_limit db =
     (case crud_get db (tiers db) (\<lambda>t. t_name t = tier_name) of
        Inl e \<Rightarrow> (Inl e, db)
      | Inr None \<Rightarrow> (Inl (NotFoundException ''Tier not found''), db)
      | Inr (Some db_tier) \<Rightarrow>
          (case crud_exists db (rate_limits db) (\<lambda>r. Some (rl_name r) = create_name rate_limit) of
             Inl e \<Rightarrow> (Inl e, db)
           | Inr db_rate_limit \<Rightarrow>
               if db_rate_limit then (Inl (DuplicateValueException ''Rate Limit Name not available''), db)
               else crud_rate_limits_create db rate_limit (t_id db_tier)))"

definition patch_rate_limit ::
  "string \<Rightarrow> int \<Rightarrow> RateLimitUpdate \<Rightarrow> database \<Rightarrow> (exn + string) \<times> database" where
  "patch_rate_limit tier_name id' values db =
     (case crud_get db (tiers db) (\<lambda>t. t_name t = tier_name) of
        Inl e \<Rightarrow> (Inl e, db)
      | Inr None \<Rightarrow> (Inl (NotFoundException ''Tier not found''), db)
      | Inr (Some db_tier) \<Rightarrow>
          (case crud_get db (rate_limits db) (\<lambda>r. rl_tier_id r = t_id db_tier \<and> rl_id r = id') of
             Inl e \<Rightarrow> (Inl e, db)
           | Inr None \<Rightarrow> (Inl (NotFoundException ''Rate Limit not found''), db)
           | Inr (Some db_rate_limit) \<Rightarrow>
               (case crud_exists db (rate_limits db)
                       (\<lambda>r. rl_tier_id r = t_id db_tier \<and> Some (rl_path r) = update_path values) of
                  Inl e \<Rightarrow> (Inl e, db)
                | Inr db_rate_limit_path \<Rightarrow>
                    if db_rate_limit_path
                    then (Inl (DuplicateValueException ''There is already a rate limit for this path''), db)
                    else
                      (case crud_exists db (rate_limits db) (\<lambda>r. True) of
                         Inl e \<Rightarrow> (Inl e, db)
                       | Inr unused \<Rightarrow>
                           if db_rate_limit_path
                           then (Inl (DuplicateValueException
                                        ''There is already a rate limit with this name''), db)
                           else
                             (case crud_rate_limits_update db values (rl_id db_rate_limit) of
                                (Inl e, db1) \<Rightarrow> (Inl e, db1)
                              | (Inr u, db1) \<Rightarrow> (Inr ''Rate Limit updated'', db1))))))"

definition erase_rate_limit :: "string \<Rightarrow> int \<Rightarrow> database \<Rightarrow> (exn + string) \<times> database" where
  "erase_rate_limit tier_name id' db =
     (case crud_get db (tiers db) (\<lambda>t. t_name t = tier_name) of
        Inl e \<Rightarrow> (Inl e, db)
      | Inr None \<Rightarrow> (Inl (NotFoundException ''Tier not found''), db)
      | Inr (Some db_tier) \<Rightarrow>
          (case crud_get db (rate_limits db) (\<lambda>r. rl_tier_id r = t_id db_tier \<and> rl_id r = id') of
             Inl e \<Rightarrow> (Inl e, db)
           | Inr None \<Rightarrow> (Inl (NotFoundException ''Rate Limit not found''), db)
           | Inr (Some db_rate_limit) \<Rightarrow>
               (case crud_rate_limits_delete db (rl_id db_rate_limit) of
                  (Inl e, db1) \<Rightarrow> (Inl e, db1)
                | (Inr u, db1) \<Rightarrow> (Inr ''Rate Limit deleted'', db1))))"

text \<open>The invariant of the data model: no two rules of one tier share a path.\<close>

definition one_rule_per_tier_path :: "database \<Rightarrow> bool" where
  "one_rule_per_tier_path db = distinct (map (\<lambda>r. (rl_tier_id r, rl_path r)) (rate_limits db))"

section \<open>Token verification (core/security.py, api/v1/logout.py)\<close>

text \<open>
  Modelled from the spec: \<open>jwt.decode(token, SECRET_KEY, algorithms=[ALGORITHM])\<close> is the
  token-verification primitive of a library. It is a parameter \<open>jwt_decode\<close> of the
  functions below: given a token it returns the claims, or raises (a \<open>JWTError\<close> when the
  signature or the expiry is not valid). Of the claims the code reads \<open>sub\<close> and \<open>exp\<close>.
\<close>

record payload =
  payload_sub :: "string option"
  payload_exp :: "int option"

text \<open>The result is the \<open>username_or_email\<close> of the \<open>TokenData\<close>, or \<open>None\<close>.\<close>

definition verify_token ::
  "(string \<Rightarrow> exn + payload) \<Rightarrow> string \<Rightarrow> database \<Rightarrow> exn + string option" where
  "verify_token jwt_decode token db =
     (case crud_exists db (token_blacklist db) (\<lambda>r. tb_token r = token) of
        Inl e \<Rightarrow> Inl e
      | Inr is_blacklisted \<Rightarrow>
          if is_blacklisted then Inr None
          else
            (case jwt_decode token of
               Inl (JWTError m) \<Rightarrow> Inr None
             | Inl e \<Rightarrow> Inl e
             | Inr payload \<Rightarrow>
                 (case payload_sub payload of
                    None \<Rightarrow> Inr None
                  | Some username_or_email \<Rightarrow> Inr (Some username_or_email))))"



section \<open>Request dependencies (api/dependencies.py)\<close>

text \<open>
  What the dependencies read of a request: the \<open>Authorization\<close> header if there is one,
  \<open>request.url.path\<close> and \<open>request.client.host\<close>.
\<close>

record request =
  authorization :: "string option"
  url_path :: string
  client_host :: string

text \<open>
  \<open>settings.DEFAULT_RATE_LIMIT_LIMIT\<close> and \<open>settings.DEFAULT_RATE_LIMIT_PERIOD\<close>
  (\<open>core/config.py\<close>); \<open>default_settings\<close> holds the values the configuration gives when
  the environment sets neither.
\<close>

record settings =
  DEFAULT_RATE_LIMIT_LIMIT :: int
  DEFAULT_RATE_LIMIT_PERIOD :: int

definition default_settings :: settings where
  "default_settings = \<lparr>DEFAULT_RATE_LIMIT_LIMIT = 10, DEFAULT_RATE_LIMIT_PERIOD = 3600\<rparr>"

text \<open>\<open>s.partition(" ")\<close>: the text before the first space, the space, and the rest.\<close>

definition str_partition :: "string \<Rightarrow> string \<times> string \<times> string" where
  "str_partition s =
     (let rest = dropWhile (\<lambda>c. c \<noteq> CHR '' '') s
      in (takeWhile (\<lambda>c. c \<noteq> CHR '' '') s, take 1 rest, drop 1 rest))"

text \<open>
  \<open>s.lower()\<close> on the letters \<open>A\<close> to \<open>Z\<close>. The result is only compared with
  \<open>"bearer"\<close>, and no other character has one of its letters as lower case.
\<close>

definition str_lower :: "string \<Rightarrow> string" where
  "str_lower s =
     map (\<lambda>c. case map_of (zip ''ABCDEFGHIJKLMNOPQRSTUVWXYZ'' ''abcdefghijklmnopqrstuvwxyz'') c of
                 None \<Rightarrow> c | Some l \<Rightarrow> l) s"

definition get_current_user ::
  "(string \<Rightarrow> exn + payload) \<Rightarrow> string \<Rightarrow> database \<Rightarrow> exn + user_row" where
  "get_current_user jwt_decode token db =
     (case verify_token jwt_decode token db of
        Inl e \<Rightarrow> Inl e
      | Inr None \<Rightarrow> Inl (UnauthorizedException ''User not authenticated.'')
      | Inr (Some username_or_email) \<Rightarrow>
          (case (if CHR ''@'' \<in> set username_or_email
                 then crud_get db (users db) (\<lambda>u. u_email u = username_or_email \<and> u_is_deleted u = False)
                 else crud_get db (users db) (\<lambda>u. u_username u = username_or_email \<and> u_is_deleted u = False)) of
             Inl e \<Rightarrow> Inl e
           | Inr (Some user) \<Rightarrow> Inr user
           | Inr None \<Rightarrow> Inl (UnauthorizedException ''User not authenticated.'')))"

text \<open>
  The body of the \<open>try\<close> block of \<open>get_optional_user\<close>, and then the function with its two
  handlers: an HTTP exception is logged unless its status is 401, any other exception is
  logged, and both give \<open>None\<close>.
\<close>

definition get_optional_user_try ::
  "(string \<Rightarrow> exn + payload) \<Rightarrow> string \<Rightarrow> database \<Rightarrow> exn + user_row option" where
  "get_optional_user_try jwt_decode token db =
     (case str_partition token of
        (token_type, sep, token_value) \<Rightarrow>
          if str_lower token_type \<noteq> ''bearer'' \<or> token_value = [] then Inr None
          else
            (case verify_token jwt_decode token_value db of
               Inl e \<Rightarrow> Inl e
             | Inr None \<Rightarrow> Inr None
             | Inr (Some token_data) \<Rightarrow>
                 (case get_current_user jwt_decode token_value db of
                    Inl e \<Rightarrow> Inl e
                  | Inr user \<Rightarrow> Inr (Some user))))"

definition get_optional_user ::
  "(string \<Rightarrow> exn + payload) \<Rightarrow> request \<Rightarrow> database \<Rightarrow> globals \<Rightarrow> (exn + user_row option) \<times> globals" where
  "get_optional_user jwt_decode request db g =
     (case authorization request of
        None \<Rightarrow> (Inr None, g)
      | Some token \<Rightarrow>
          if token = [] then (Inr None, g)
          else
            (case get_optional_user_try jwt_decode token db of
               Inr user \<Rightarrow> (Inr user, g)
             | Inl exc \<Rightarrow>
                 (case status_code exc of
                    Some code \<Rightarrow>
                      (Inr None,
                       if code \<noteq> 401
                       then logger (LogError (''Unexpected HTTPException in get_optional_user: '' @ str_exn exc)) g
                       else g)
                  | None \<Rightarrow>
                      (Inr None,
                       logger (LogError (''Unexpected error in get_optional_user: '' @ str_exn exc)) g))))"

text \<open>
  Lines 139 to 157 of \<open>rate_limiter\<close>: the identity, the limit and the period the check
  is made with. A failing query raises; a missing tier or rule only logs a warning.
\<close>

definition resolve_rate_limit ::
  "settings \<Rightarrow> request \<Rightarrow> database \<Rightarrow> user_row option \<Rightarrow> string \<Rightarrow> globals
     \<Rightarrow> (exn + identity \<times> int \<times> int) \<times> globals" where
  "resolve_rate_limit config request db user path g =
     (let DEFAULT_LIMIT = DEFAULT_RATE_LIMIT_LIMIT config;
          DEFAULT_PERIOD = DEFAULT_RATE_LIMIT_PERIOD config
      in case user of
           None \<Rightarrow> (Inr (ClientHost (client_host request), DEFAULT_LIMIT, DEFAULT_PERIOD), g)
         | Some u \<Rightarrow>
             let user_id = UserId (u_id u)
             in (case crud_get db (tiers db) (\<lambda>t. Some (t_id t) = u_tier_id u) of
                   Inl e \<Rightarrow> (Inl e, g)
                 | Inr None \<Rightarrow>
                     (Inr (user_id, DEFAULT_LIMIT, DEFAULT_PERIOD),
                      logger (LogWarning (''User '' @ str_identity user_id
                                @ '' has no assigned tier. Applying default rate limit.'')) g)
                 | Inr (Some tier) \<Rightarrow>
                     (case crud_get db (rate_limits db)
                             (\<lambda>r. rl_tier_id r = t_id tier \<and> rl_path r = path) of
                        Inl e \<Rightarrow> (Inl e, g)
                      | Inr None \<Rightarrow>
                          (Inr (user_id, DEFAULT_LIMIT, DEFAULT_PERIOD),
                           logger (LogWarning (''User '' @ str_identity user_id @ '' with tier ''
                                     @ [CHR 0x27] @ t_name tier @ [CHR 0x27]
                                     @ '' has no specific rate limit for path '' @ [CHR 0x27] @ path
                                     @ [CHR 0x27] @ ''.                         Applying default rate limit.'')) g)
                      | Inr (Some rate_limit) \<Rightarrow>
                          (Inr (user_id, rl_limit rate_limit, rl_period rate_limit), g))))"

definition rate_limiter ::
  "settings \<Rightarrow> int \<Rightarrow> request \<Rightarrow> database \<Rightarrow> user_row option \<Rightarrow> globals \<Rightarrow> (exn + unit) \<times> globals" where
  "rate_limiter config now request db user g =
     (let path = sanitize_path (url_path request)
      in case resolve_rate_limit config request db user path g of
           (Inl e, g1) \<Rightarrow> (Inl e, g1)
         | (Inr (user_id, limit, period), g1) \<Rightarrow>
             (case is_rate_limited now user_id path limit period g1 of
                (Inl e, g2) \<Rightarrow> (Inl e, g2)
              | (Inr is_limited, g2) \<Rightarrow>
                  if is_limited then (Inl (RateLimitException ''Rate limit exceeded.''), g2)
                  else (Inr (), g2)))"

text \<open>The same user sending one request after another through \<open>rate_limiter\<close>.\<close>

fun rate_limiter_sequence ::
  "settings \<Rightarrow> request \<Rightarrow> database \<Rightarrow> user_row option \<Rightarrow> int list \<Rightarrow> globals
     \<Rightarrow> (exn + unit) list \<times> globals" where
  "rate_limiter_sequence config request db user [] g = ([], g)"
| "rate_limiter_sequence config request db user (t # ts) g =
     (case rate_limiter config t request db user g of
        (outcome, g1) \<Rightarrow>
          (case rate_limiter_sequence config request db user ts g1 of
             (outcomes, g2) \<Rightarrow> (outcome # outcomes, g2)))"

section \<open>Properties of path sanitising\<close>

lemma dropWhile_slash_replicate:
  "dropWhile (\<lambda>c. c = CHR ''/'') (replicate k (CHR ''/'') @ xs) = dropWhile (\<lambda>c. c = CHR ''/'') xs"
  by (induction k) simp_all

lemma dropWhile_slash_all:
  "\<forall>c\<in>set xs. c = CHR ''/'' \<Longrightarrow> dropWhile (\<lambda>c. c = CHR ''/'') xs = []"
  by (induction xs) simp_all

lemma dropWhile_slash_only:
  "dropWhile (\<lambda>c. c = CHR ''/'') (replicate m (CHR ''/'')) = []"
  using dropWhile_slash_replicate [of m "[]"] by simp

lemma rev_dropWhile_rev_pad:
  "rev (dropWhile (\<lambda>c. c = CHR ''/'') (rev (xs @ replicate m (CHR ''/''))))
   = rev (dropWhile (\<lambda>c. c = CHR ''/'') (rev xs))"
proof -
  have "rev (xs @ replicate m (CHR ''/'')) = replicate m (CHR ''/'') @ rev xs"
    by simp
  then show ?thesis
    by (simp only: dropWhile_slash_replicate)
qed

lemma dropWhile_slash_pad_right:
  "rev (dropWhile (\<lambda>c. c = CHR ''/'') (rev (dropWhile (\<lambda>c. c = CHR ''/'') (p @ replicate m (CHR ''/'')))))
   = rev (dropWhile (\<lambda>c. c = CHR ''/'') (rev (dropWhile (\<lambda>c. c = CHR ''/'') p)))"
proof (cases "\<forall>c\<in>set p. c = CHR ''/''")
  case True
  then have "\<And>x. x \<in> set p \<Longrightarrow> x = CHR ''/''" by (rule bspec)
  then have "dropWhile (\<lambda>c. c = CHR ''/'') (p @ replicate m (CHR ''/''))
           = dropWhile (\<lambda>c. c = CHR ''/'') (replicate m (CHR ''/''))"
    by (rule dropWhile_append2)
  then have a: "dropWhile (\<lambda>c. c = CHR ''/'') (p @ replicate m (CHR ''/'')) = []"
    by (simp only: dropWhile_slash_only)
  have b: "dropWhile (\<lambda>c. c = CHR ''/'') p = []"
    using True by (rule dropWhile_slash_all)
  show ?thesis
    by (simp only: a b)
next
  case False
  then obtain x where x: "x \<in> set p" "\<not> (x = CHR ''/'')" by blast
  have a: "dropWhile (\<lambda>c. c = CHR ''/'') (p @ replicate m (CHR ''/''))
           = dropWhile (\<lambda>c. c = CHR ''/'') p @ replicate m (CHR ''/'')"
    using x by (rule dropWhile_append1)
  show ?thesis
    by (simp only: a rev_dropWhile_rev_pad)
qed

lemma strip_slashes_pad:
  "strip_slashes (replicate n (CHR ''/'') @ p @ replicate m (CHR ''/'')) = strip_slashes p"
  unfolding strip_slashes_def
  by (simp only: dropWhile_slash_replicate dropWhile_slash_pad_right)

lemma takeWhile_slash_replicate:
  "takeWhile (\<lambda>c. c = CHR ''/'') xs = replicate (length (takeWhile (\<lambda>c. c = CHR ''/'') xs)) (CHR ''/'')"
proof -
  have "\<forall>y\<in>set (takeWhile (\<lambda>c. c = CHR ''/'') xs). y = CHR ''/''"
    by (meson set_takeWhileD)
  then show ?thesis by (simp only: replicate_length_same)
qed

lemma strip_slashes_decompose:
  "\<exists>a b. p = replicate a (CHR ''/'') @ strip_slashes p @ replicate b (CHR ''/'')"
proof -
  define d where "d = dropWhile (\<lambda>c. c = CHR ''/'') p"
  define r where "r = rev d"
  have s: "strip_slashes p = rev (dropWhile (\<lambda>c. c = CHR ''/'') r)"
    by (simp only: strip_slashes_def d_def r_def)
  have "r = takeWhile (\<lambda>c. c = CHR ''/'') r @ dropWhile (\<lambda>c. c = CHR ''/'') r"
    by (simp only: takeWhile_dropWhile_id)
  then have "rev r = rev (dropWhile (\<lambda>c. c = CHR ''/'') r) @ rev (takeWhile (\<lambda>c. c = CHR ''/'') r)"
    by (metis rev_append)
  then have "d = strip_slashes p @ rev (takeWhile (\<lambda>c. c = CHR ''/'') r)"
    by (simp only: s r_def rev_rev_ident)
  moreover have "rev (takeWhile (\<lambda>c. c = CHR ''/'') r)
      = replicate (length (takeWhile (\<lambda>c. c = CHR ''/'') r)) (CHR ''/'')"
    by (subst takeWhile_slash_replicate) (simp only: rev_replicate)
  ultimately have 1: "d = strip_slashes p @ replicate (length (takeWhile (\<lambda>c. c = CHR ''/'') r)) (CHR ''/'')"
    by (simp only:)
  have "p = takeWhile (\<lambda>c. c = CHR ''/'') p @ d"
    by (simp only: d_def takeWhile_dropWhile_id)
  then have 2: "p = replicate (length (takeWhile (\<lambda>c. c = CHR ''/'') p)) (CHR ''/'') @ d"
    using takeWhile_slash_replicate [of p] by (simp only:)
  from 1 2 show ?thesis by metis
qed

lemma strip_slashes_no_trailing: "strip_slashes p \<noteq> q @ [CHR ''/'']"
proof
  assume a: "strip_slashes p = q @ [CHR ''/'']"
  define r where "r = rev (dropWhile (\<lambda>c. c = CHR ''/'') p)"
  from a have "rev (strip_slashes p) = CHR ''/'' # rev q" by simp
  then have e: "dropWhile (\<lambda>c. c = CHR ''/'') r = CHR ''/'' # rev q"
    by (simp only: strip_slashes_def r_def rev_rev_ident)
  then have "dropWhile (\<lambda>c. c = CHR ''/'') r \<noteq> []" by simp
  then have "\<not> (hd (dropWhile (\<lambda>c. c = CHR ''/'') r) = CHR ''/'')"
    by (rule hd_dropWhile)
  with e show False by simp
qed

lemma strip_slashes_no_leading: "strip_slashes p \<noteq> CHR ''/'' # q"
proof
  assume a: "strip_slashes p = CHR ''/'' # q"
  define d where "d = dropWhile (\<lambda>c. c = CHR ''/'') p"
  have s: "strip_slashes p = rev (dropWhile (\<lambda>c. c = CHR ''/'') (rev d))"
    by (simp only: strip_slashes_def d_def)
  have "rev d = takeWhile (\<lambda>c. c = CHR ''/'') (rev d) @ dropWhile (\<lambda>c. c = CHR ''/'') (rev d)"
    by (simp only: takeWhile_dropWhile_id)
  then have "rev (rev d) = rev (dropWhile (\<lambda>c. c = CHR ''/'') (rev d)) @ rev (takeWhile (\<lambda>c. c = CHR ''/'') (rev d))"
    by (metis rev_append)
  then have "d = (CHR ''/'' # q) @ rev (takeWhile (\<lambda>c. c = CHR ''/'') (rev d))"
    using a s by (simp only: rev_rev_ident)
  then have h: "d \<noteq> []" "hd d = CHR ''/''" by (metis Nil_is_append_conv list.distinct(1), metis append_Cons list.sel(1))
  from h(1) have "\<not> (hd d = CHR ''/'')" unfolding d_def by (rule hd_dropWhile)
  with h(2) show False by simp
qed

lemma sanitize_path_no_slash: "CHR ''/'' \<notin> set (sanitize_path p)"
proof
  assume "CHR ''/'' \<in> set (sanitize_path p)"
  then have "CHR ''/'' \<in> (\<lambda>c. if c = CHR ''/'' then CHR ''_'' else c) ` set (strip_slashes p)"
    by (simp only: sanitize_path_def replace_slashes_def set_map)
  then obtain c where "CHR ''/'' = (if c = CHR ''/'' then CHR ''_'' else c)"
    by (rule imageE)
  then show False by (cases "c = CHR ''/''") simp_all
qed

text \<open>
  C7: \<open>sanitize_path\<close> strips the leading and the trailing slashes and replaces each slash
  that is left by an underscore, so \<open>"/users/"\<close>, \<open>"users"\<close> and \<open>"/users"\<close> all give
  \<open>"users"\<close>, and routes that differ only in such slashes share one key. In full: the
  three examples; padding a path with slashes on either side does not change the result;
  the path is the stripped path between two runs of slashes, and the stripped path neither
  starts nor ends with a slash; the result is the stripped path with its slashes replaced,
  and holds no slash.
\<close>

theorem sanitize_path_normalises:
  "sanitize_path ''/users/'' = ''users''
   \<and> sanitize_path ''users'' = ''users''
   \<and> sanitize_path ''/users'' = ''users''
   \<and> sanitize_path (replicate n (CHR ''/'') @ p @ replicate m (CHR ''/'')) = sanitize_path p
   \<and> (\<exists>a b. p = replicate a (CHR ''/'') @ strip_slashes p @ replicate b (CHR ''/''))
   \<and> (\<forall>q. strip_slashes p \<noteq> CHR ''/'' # q)
   \<and> (\<forall>q. strip_slashes p \<noteq> q @ [CHR ''/''])
   \<and> sanitize_path p = map (\<lambda>c. if c = CHR ''/'' then CHR ''_'' else c) (strip_slashes p)
   \<and> CHR ''/'' \<notin> set (sanitize_path p)"
proof -
  have a1: "sanitize_path ''/users/'' = ''users''"
    by (simp add: sanitize_path_def replace_slashes_def strip_slashes_def)
  have a2: "sanitize_path ''users'' = ''users''"
    by (simp add: sanitize_path_def replace_slashes_def strip_slashes_def)
  have a3: "sanitize_path ''/users'' = ''users''"
    by (simp add: sanitize_path_def replace_slashes_def strip_slashes_def)
  have a4: "sanitize_path (replicate n (CHR ''/'') @ p @ replicate m (CHR ''/'')) = sanitize_path p"
    unfolding sanitize_path_def by (simp only: strip_slashes_pad)
  have a5: "\<exists>a b. p = replicate a (CHR ''/'') @ strip_slashes p @ replicate b (CHR ''/'')"
    by (rule strip_slashes_decompose)
  have a6: "\<forall>q. strip_slashes p \<noteq> CHR ''/'' # q"
    by (intro allI) (rule strip_slashes_no_leading)
  have a7: "\<forall>q. strip_slashes p \<noteq> q @ [CHR ''/'']"
    by (intro allI) (rule strip_slashes_no_trailing)
  have a8: "sanitize_path p = map (\<lambda>c. if c = CHR ''/'' then CHR ''_'' else c) (strip_slashes p)"
    by (simp only: sanitize_path_def replace_slashes_def)
  have a9: "CHR ''/'' \<notin> set (sanitize_path p)"
    by (rule sanitize_path_no_slash)
  show ?thesis
    by (intro conjI) (rule a1, rule a2, rule a3, rule a4, rule a5, rule a6, rule a7, rule a8, rule a9)
qed

section \<open>Properties of the rate-limit key\<close>










section \<open>Properties of the rate-limit check\<close>

lemma is_rate_limited_uninitialized:
  "client g = None \<Longrightarrow>
   is_rate_limited now user_id path limit period g =
     (Inl (PyException ''Redis client is not initialized.''),
      logger (LogError ''Redis client is not initialized.'') g)"
  by (simp add: is_rate_limited_def)


lemma is_rate_limited_zero_period:
  "client g = Some r \<Longrightarrow> is_rate_limited now user_id path limit 0 g = (Inl ZeroDivisionError, g)"
  by (simp add: is_rate_limited_def)

lemma is_rate_limited_first:
  assumes "period \<noteq> 0" "client g = Some r" "reachable r"
    and "live_entry r now (ratelimit_key user_id (sanitize_path path) (now - now mod period)) = None"
    and "0 < period"
  shows "is_rate_limited now user_id path limit period g =
     (Inr (limit < 1),
      g\<lparr>client := Some (r\<lparr>entries := (entries r)
          (ratelimit_key user_id (sanitize_path path) (now - now mod period)
             \<mapsto> (1, Some (now + period)))\<rparr>)\<rparr>)"
  using assms
  by (simp add: is_rate_limited_def redis_incr_def redis_expire_def live_entry_def Let_def)

lemma is_rate_limited_next:
  assumes "period \<noteq> 0" "client g = Some r" "reachable r"
    and "live_entry r now (ratelimit_key user_id (sanitize_path path) (now - now mod period)) = Some (c, d)"
    and "c \<noteq> 0"
  shows "is_rate_limited now user_id path limit period g =
     (Inr (limit < c + 1),
      g\<lparr>client := Some (r\<lparr>entries := (entries r)
          (ratelimit_key user_id (sanitize_path path) (now - now mod period)
             \<mapsto> (c + 1, d))\<rparr>)\<rparr>)"
  using assms
  by (simp add: is_rate_limited_def redis_incr_def Let_def)

lemma is_rate_limited_incr_raises:
  "client g = Some r \<Longrightarrow> period \<noteq> 0 \<Longrightarrow>
   redis_incr now (ratelimit_key user_id (sanitize_path path) (now - now mod period)) r = Inl e \<Longrightarrow>
   is_rate_limited now user_id path limit period g =
     (Inl e, logger (LogException (''Error checking rate limit for user '' @ str_identity user_id
                @ '' on path '' @ path @ '': '' @ str_exn e)) g)"
  by (simp add: is_rate_limited_def Let_def)



section \<open>Counting within one window\<close>

lemma window_bounds:
  fixes t :: int
  assumes "0 < period" "t - t mod period = ws"
  shows "ws \<le> t" and "t < ws + period"
proof -
  have "0 \<le> t mod period" "t mod period < period"
    using assms(1) by simp_all
  with assms(2) show "ws \<le> t" and "t < ws + period" by linarith+
qed

lemma upt_shift: "[1..<Suc (Suc n)] = 1 # map Suc [1..<Suc n]"
proof -
  have "[1..<Suc (Suc n)] = 1 # [Suc 1..<Suc (Suc n)]"
    by (simp add: upt_conv_Cons)
  also have "[Suc 1..<Suc (Suc n)] = map Suc [1..<Suc n]"
    by (simp only: map_Suc_upt)
  finally show ?thesis .
qed

lemma counted_outcomes_shift:
  "Inr (limit < c + 1) # map (\<lambda>k. Inr (limit < c + 1 + int k)) [1..<Suc n]
   = map (\<lambda>k. (Inr (limit < c + int k) :: exn + bool)) [1..<Suc (Suc n)]"
proof -
  have "(\<lambda>k. (Inr (limit < c + int k) :: exn + bool)) \<circ> Suc = (\<lambda>k. Inr (limit < c + 1 + int k))"
    by (rule ext) (simp add: algebra_simps)
  then show ?thesis
    by (simp only: upt_shift list.map map_map) simp
qed

lemma request_sequence_counting:
  assumes "0 < period"
  shows "client g = Some r \<Longrightarrow> reachable r \<Longrightarrow>
     entries r (ratelimit_key user_id (sanitize_path path) ws) = Some (c, Some d) \<Longrightarrow>
     0 < c \<Longrightarrow> ws + period \<le> d \<Longrightarrow>
     \<forall>t\<in>set ts. t - t mod period = ws \<Longrightarrow>
     fst (request_sequence user_id path limit period ts g)
       = map (\<lambda>k. Inr (limit < c + int k)) [1..<Suc (length ts)]"
proof (induction ts arbitrary: g r c)
  case Nil
  show ?case by simp
next
  case (Cons t ts)
  let ?key = "ratelimit_key user_id (sanitize_path path) ws"
  from Cons.prems(6) have w: "t - t mod period = ws" by simp
  then have "t < ws + period" using assms by (rule window_bounds(2) [rotated])
  with Cons.prems(5) have "t < d" by linarith
  with Cons.prems(3) have live: "live_entry r t ?key = Some (c, Some d)"
    by (simp add: live_entry_def)
  define r1 where "r1 = r\<lparr>entries := (entries r)(?key \<mapsto> (c + 1, Some d))\<rparr>"
  define g1 where "g1 = g\<lparr>client := Some r1\<rparr>"
  have step: "is_rate_limited t user_id path limit period g = (Inr (limit < c + 1), g1)"
    unfolding g1_def r1_def
    using is_rate_limited_next [of period g r t user_id path c "Some d" limit]
      assms Cons.prems(1,2,4) live w by simp
  have "fst (request_sequence user_id path limit period ts g1)
       = map (\<lambda>k. Inr (limit < (c + 1) + int k)) [1..<Suc (length ts)]"
  proof (rule Cons.IH)
    show "client g1 = Some r1" by (simp add: g1_def)
    show "reachable r1" using Cons.prems(2) by (simp add: r1_def)
    show "entries r1 ?key = Some (c + 1, Some d)" by (simp add: r1_def)
    show "0 < c + 1" using Cons.prems(4) by simp
    show "ws + period \<le> d" by (rule Cons.prems(5))
    show "\<forall>t\<in>set ts. t - t mod period = ws" using Cons.prems(6) by simp
  qed
  then have "fst (request_sequence user_id path limit period (t # ts) g)
     = Inr (limit < c + 1) # map (\<lambda>k. Inr (limit < c + 1 + int k)) [1..<Suc (length ts)]"
    using step by (simp add: split_beta)
  then show ?case
    by (simp only: counted_outcomes_shift length_Cons)
qed

lemma request_sequence_fresh:
  assumes "0 < period" "client g = Some r" "reachable r"
    and "entries r (ratelimit_key user_id (sanitize_path path) ws) = None"
    and "\<forall>t\<in>set ts. t - t mod period = ws"
  shows "fst (request_sequence user_id path limit period ts g)
       = map (\<lambda>k. Inr (limit < int k)) [1..<Suc (length ts)]"
proof (cases ts)
  case Nil
  then show ?thesis by simp
next
  case (Cons t ts')
  let ?key = "ratelimit_key user_id (sanitize_path path) ws"
  from assms(5) Cons have w: "t - t mod period = ws" by simp
  then have lo: "ws \<le> t" using assms(1) by (rule window_bounds(1) [rotated])
  from assms(4) have live: "live_entry r t ?key = None"
    by (simp add: live_entry_def)
  define r1 where "r1 = r\<lparr>entries := (entries r)(?key \<mapsto> (1, Some (t + period)))\<rparr>"
  define g1 where "g1 = g\<lparr>client := Some r1\<rparr>"
  have step: "is_rate_limited t user_id path limit period g = (Inr (limit < 1), g1)"
    unfolding g1_def r1_def
    using is_rate_limited_first [of period g r t user_id path limit] assms(1,2,3) live w by simp
  have "fst (request_sequence user_id path limit period ts' g1)
       = map (\<lambda>k. Inr (limit < 1 + int k)) [1..<Suc (length ts')]"
  proof (rule request_sequence_counting [OF assms(1)])
    show "client g1 = Some r1" by (simp add: g1_def)
    show "reachable r1" using assms(3) by (simp add: r1_def)
    show "entries r1 ?key = Some (1, Some (t + period))" by (simp add: r1_def)
    show "(0::int) < 1" by simp
    show "ws + period \<le> t + period" using lo by simp
    show "\<forall>t\<in>set ts'. t - t mod period = ws" using assms(5) Cons by simp
  qed
  then have "fst (request_sequence user_id path limit period ts g)
     = Inr (limit < 0 + 1) # map (\<lambda>k. Inr (limit < 0 + 1 + int k)) [1..<Suc (length ts')]"
    using step Cons by (simp add: split_beta)
  then have "fst (request_sequence user_id path limit period ts g)
     = map (\<lambda>k. Inr (limit < 0 + int k)) [1..<Suc (Suc (length ts'))]"
    by (simp only: counted_outcomes_shift)
  then show ?thesis using Cons by simp
qed



section \<open>Crossing a window boundary\<close>







section \<open>Properties of tier resolution\<close>

lemma dropWhile_no_slash:
  "CHR ''/'' \<notin> set q \<Longrightarrow> dropWhile (\<lambda>c. c = CHR ''/'') q = q"
proof (cases q)
  case Nil
  then show ?thesis by simp
next
  case (Cons a list)
  assume "CHR ''/'' \<notin> set q"
  with Cons have "\<not> (a = CHR ''/'')" by (metis list.set_intros(1))
  with Cons show ?thesis by simp
qed

lemma strip_slashes_no_slash: "CHR ''/'' \<notin> set q \<Longrightarrow> strip_slashes q = q"
proof -
  assume a: "CHR ''/'' \<notin> set q"
  then have "CHR ''/'' \<notin> set (rev q)" by simp
  then have "dropWhile (\<lambda>c. c = CHR ''/'') (rev q) = rev q" by (rule dropWhile_no_slash)
  with a show ?thesis by (simp add: strip_slashes_def dropWhile_no_slash)
qed

lemma replace_slashes_no_slash: "CHR ''/'' \<notin> set q \<Longrightarrow> replace_slashes q = q"
  unfolding replace_slashes_def by (rule map_idI) metis

lemma sanitize_path_idem: "sanitize_path (sanitize_path p) = sanitize_path p"
proof -
  have n: "CHR ''/'' \<notin> set (sanitize_path p)" by (rule sanitize_path_no_slash)
  have "sanitize_path (sanitize_path p) = replace_slashes (strip_slashes (sanitize_path p))"
    by (simp only: sanitize_path_def)
  also have "\<dots> = replace_slashes (sanitize_path p)"
    by (simp only: strip_slashes_no_slash [OF n])
  also have "\<dots> = sanitize_path p"
    using n by (rule replace_slashes_no_slash)
  finally show ?thesis .
qed

lemma is_rate_limited_client_only:
  assumes "client g = client g'"
  shows "fst (is_rate_limited now user_id path limit period g)
           = fst (is_rate_limited now user_id path limit period g')
         \<and> client (snd (is_rate_limited now user_id path limit period g))
           = client (snd (is_rate_limited now user_id path limit period g'))"
proof (cases "client g")
  case None
  with assms show ?thesis by (simp add: is_rate_limited_uninitialized logger_def)
next
  case (Some r)
  note c = this
  let ?key = "ratelimit_key user_id (sanitize_path path) (now - now mod period)"
  show ?thesis
  proof (cases "period = 0")
    case True
    with c assms show ?thesis by (simp add: is_rate_limited_zero_period)
  next
    case False
    note p = this
    show ?thesis
    proof (cases "redis_incr now ?key r")
      case (Inl e)
      with c assms p show ?thesis by (simp add: is_rate_limited_incr_raises logger_def)
    next
      case (Inr a)
      obtain v r1 where a: "a = (v, r1)" by (cases a)
      show ?thesis
      proof (cases "if v = 1 then redis_expire now ?key period r1 else Inr r1")
        case (Inl e)
        with c assms p Inr a show ?thesis
          by (simp add: is_rate_limited_def Let_def logger_def)
      next
        case (Inr r2)
        with c assms p \<open>redis_incr now ?key r = Inr a\<close> a show ?thesis
          by (simp add: is_rate_limited_def Let_def)
      qed
    qed
  qed
qed

lemma rate_limiter_resolved:
  assumes "resolve_rate_limit config request db user (sanitize_path (url_path request)) g
             = (Inr (uid, limit, period), g1)"
  shows "rate_limiter config now request db user g =
           (case is_rate_limited now uid (sanitize_path (url_path request)) limit period g1 of
              (Inl e, g2) \<Rightarrow> (Inl e, g2)
            | (Inr is_limited, g2) \<Rightarrow>
                if is_limited then (Inl (RateLimitException ''Rate limit exceeded.''), g2)
                else (Inr (), g2))"
  using assms by (simp add: rate_limiter_def Let_def)

lemma rate_limiter_sequence_outcomes:
  assumes res: "\<And>g. \<exists>g1. resolve_rate_limit config request db user (sanitize_path (url_path request)) g
                         = (Inr (uid, limit, period), g1) \<and> client g1 = client g"
  shows "client g = client g' \<Longrightarrow>
         fst (rate_limiter_sequence config request db user ts g)
           = map (\<lambda>outcome. case outcome of
                    Inl e \<Rightarrow> Inl e
                  | Inr is_limited \<Rightarrow>
                      if is_limited then Inl (RateLimitException ''Rate limit exceeded.'') else Inr ())
               (fst (request_sequence uid (sanitize_path (url_path request)) limit period ts g'))"
proof (induction ts arbitrary: g g')
  case Nil
  show ?case by simp
next
  case (Cons t ts)
  let ?path = "sanitize_path (url_path request)"
  obtain g1 where g1: "resolve_rate_limit config request db user ?path g = (Inr (uid, limit, period), g1)"
    "client g1 = client g" using res by blast
  let ?X = "is_rate_limited t uid ?path limit period g1"
  let ?Y = "is_rate_limited t uid ?path limit period g'"
  from g1(2) Cons.prems have "client g1 = client g'" by simp
  then have same: "fst ?X = fst ?Y" "client (snd ?X) = client (snd ?Y)"
    using is_rate_limited_client_only by blast+
  have rl: "rate_limiter config t request db user g =
     ((case fst ?X of Inl e \<Rightarrow> Inl e
        | Inr is_limited \<Rightarrow> if is_limited then Inl (RateLimitException ''Rate limit exceeded.'') else Inr ()),
      snd ?X)"
    by (simp add: rate_limiter_resolved [OF g1(1)] split: prod.splits sum.splits)
  have ih: "fst (rate_limiter_sequence config request db user ts (snd ?X))
     = map (\<lambda>outcome. case outcome of
                    Inl e \<Rightarrow> Inl e
                  | Inr is_limited \<Rightarrow>
                      if is_limited then Inl (RateLimitException ''Rate limit exceeded.'') else Inr ())
         (fst (request_sequence uid ?path limit period ts (snd ?Y)))"
    using same(2) by (rule Cons.IH)
  show ?case
    using rl ih same(1) by (simp add: split_beta)
qed

lemma resolve_anonymous:
  "resolve_rate_limit config request db None path g
     = (Inr (ClientHost (client_host request), DEFAULT_RATE_LIMIT_LIMIT config,
             DEFAULT_RATE_LIMIT_PERIOD config), g)"
  by (simp add: resolve_rate_limit_def)

lemma resolve_no_tier:
  assumes "fault db = None" "find (\<lambda>t. Some (t_id t) = u_tier_id u) (tiers db) = None"
  shows "\<exists>msg. resolve_rate_limit config request db (Some u) path g
     = (Inr (UserId (u_id u), DEFAULT_RATE_LIMIT_LIMIT config, DEFAULT_RATE_LIMIT_PERIOD config),
        logger (LogWarning msg) g)"
proof -
  have "resolve_rate_limit config request db (Some u) path g
     = (Inr (UserId (u_id u), DEFAULT_RATE_LIMIT_LIMIT config, DEFAULT_RATE_LIMIT_PERIOD config),
        logger (LogWarning (''User '' @ str_identity (UserId (u_id u))
                  @ '' has no assigned tier. Applying default rate limit.'')) g)"
    using assms by (simp add: resolve_rate_limit_def crud_get_def Let_def)
  then show ?thesis by (rule exI)
qed

lemma resolve_no_rule:
  assumes "fault db = None" "find (\<lambda>t. Some (t_id t) = u_tier_id u) (tiers db) = Some tier"
    and "find (\<lambda>r. rl_tier_id r = t_id tier \<and> rl_path r = path) (rate_limits db) = None"
  shows "\<exists>msg. resolve_rate_limit config request db (Some u) path g
     = (Inr (UserId (u_id u), DEFAULT_RATE_LIMIT_LIMIT config, DEFAULT_RATE_LIMIT_PERIOD config),
        logger (LogWarning msg) g)"
proof -
  have "resolve_rate_limit config request db (Some u) path g
     = (Inr (UserId (u_id u), DEFAULT_RATE_LIMIT_LIMIT config, DEFAULT_RATE_LIMIT_PERIOD config),
        logger (LogWarning (''User '' @ str_identity (UserId (u_id u)) @ '' with tier ''
                  @ [CHR 0x27] @ t_name tier @ [CHR 0x27]
                  @ '' has no specific rate limit for path '' @ [CHR 0x27] @ path
                  @ [CHR 0x27] @ ''.                         Applying default rate limit.'')) g)"
    using assms by (simp add: resolve_rate_limit_def crud_get_def Let_def)
  then show ?thesis by (rule exI)
qed

lemma resolve_rule:
  assumes "fault db = None" "find (\<lambda>t. Some (t_id t) = u_tier_id u) (tiers db) = Some tier"
    and "find (\<lambda>r. rl_tier_id r = t_id tier \<and> rl_path r = path) (rate_limits db) = Some rule"
  shows "resolve_rate_limit config request db (Some u) path g
     = (Inr (UserId (u_id u), rl_limit rule, rl_period rule), g)"
  using assms by (simp add: resolve_rate_limit_def crud_get_def Let_def)

lemma rate_limiter_sequence_no_tier:
  assumes "fault db = None" "find (\<lambda>t. Some (t_id t) = u_tier_id u) (tiers db) = None"
    and "client g = Some r" "reachable r"
    and "entries r (ratelimit_key (UserId (u_id u)) (sanitize_path (url_path request)) ws) = None"
    and "\<forall>t\<in>set ts. t - t mod 3600 = ws"
  shows "fst (rate_limiter_sequence default_settings request db (Some u) ts g)
       = map (\<lambda>k. if 10 < int k then Inl (RateLimitException ''Rate limit exceeded.'') else Inr ())
           [1..<Suc (length ts)]"
proof -
  let ?path = "sanitize_path (url_path request)"
  have res: "\<And>g. \<exists>g1. resolve_rate_limit default_settings request db (Some u) ?path g
                         = (Inr (UserId (u_id u), 10, 3600), g1) \<and> client g1 = client g"
  proof -
    fix g
    obtain msg where "resolve_rate_limit default_settings request db (Some u) ?path g
       = (Inr (UserId (u_id u), DEFAULT_RATE_LIMIT_LIMIT default_settings,
               DEFAULT_RATE_LIMIT_PERIOD default_settings), logger (LogWarning msg) g)"
      using resolve_no_tier [OF assms(1,2)] by blast
    then show "\<exists>g1. resolve_rate_limit default_settings request db (Some u) ?path g
                         = (Inr (UserId (u_id u), 10, 3600), g1) \<and> client g1 = client g"
      by (simp add: default_settings_def logger_def)
  qed
  have key: "entries r (ratelimit_key (UserId (u_id u)) (sanitize_path ?path) ws) = None"
    using assms(5) by (simp only: sanitize_path_idem)
  have "fst (request_sequence (UserId (u_id u)) ?path 10 3600 ts g)
       = map (\<lambda>k. Inr (10 < int k)) [1..<Suc (length ts)]"
    using request_sequence_fresh [of 3600 g r "UserId (u_id u)" ?path ws ts 10]
      assms(3,4,6) key by simp
  then show ?thesis
    using rate_limiter_sequence_outcomes [OF res, of g g ts] by (simp add: o_def)
qed

text \<open>
  C3: \<open>rate_limiter\<close> takes the limit and the period of the rule that the user's tier has
  for the sanitised path; an anonymous request, a user whose tier lookup finds no tier and
  a tier with no rule for the path get the defaults of the settings, 10 and 3600 unless
  configured otherwise, with at most a warning logged and no exception; the check is then
  made with the resolved values. So of the requests a user without a tier sends within
  one hour window, starting from an absent counter, the first ten pass and the eleventh
  and later ones raise \<open>RateLimitException\<close>.
\<close>

theorem rate_limiter_tier_resolution:
  "resolve_rate_limit config request db None path g
     = (Inr (ClientHost (client_host request), DEFAULT_RATE_LIMIT_LIMIT config,
             DEFAULT_RATE_LIMIT_PERIOD config), g)
   \<and> (fault db = None \<and> find (\<lambda>t. Some (t_id t) = u_tier_id u) (tiers db) = None \<longrightarrow>
        (\<exists>msg. resolve_rate_limit config request db (Some u) path g
           = (Inr (UserId (u_id u), DEFAULT_RATE_LIMIT_LIMIT config, DEFAULT_RATE_LIMIT_PERIOD config),
              logger (LogWarning msg) g)))
   \<and> (fault db = None \<and> find (\<lambda>t. Some (t_id t) = u_tier_id u) (tiers db) = Some tier
        \<and> find (\<lambda>r. rl_tier_id r = t_id tier \<and> rl_path r = path) (rate_limits db) = None \<longrightarrow>
        (\<exists>msg. resolve_rate_limit config request db (Some u) path g
           = (Inr (UserId (u_id u), DEFAULT_RATE_LIMIT_LIMIT config, DEFAULT_RATE_LIMIT_PERIOD config),
              logger (LogWarning msg) g)))
   \<and> (fault db = None \<and> find (\<lambda>t. Some (t_id t) = u_tier_id u) (tiers db) = Some tier
        \<and> find (\<lambda>r. rl_tier_id r = t_id tier \<and> rl_path r = path) (rate_limits db) = Some rule \<longrightarrow>
        resolve_rate_limit config request db (Some u) path g
           = (Inr (UserId (u_id u), rl_limit rule, rl_period rule), g))
   \<and> (resolve_rate_limit config request db user (sanitize_path (url_path request)) g
          = (Inr (uid, limit, period), g1) \<longrightarrow>
        rate_limiter config now request db user g =
           (case is_rate_limited now uid (sanitize_path (url_path request)) limit period g1 of
              (Inl e, g2) \<Rightarrow> (Inl e, g2)
            | (Inr is_limited, g2) \<Rightarrow>
                if is_limited then (Inl (RateLimitException ''Rate limit exceeded.''), g2)
                else (Inr (), g2)))
   \<and> DEFAULT_RATE_LIMIT_LIMIT default_settings = 10
   \<and> DEFAULT_RATE_LIMIT_PERIOD default_settings = 3600
   \<and> (fault db = None \<and> find (\<lambda>t. Some (t_id t) = u_tier_id u) (tiers db) = None
        \<and> client g = Some r \<and> reachable r
        \<and> entries r (ratelimit_key (UserId (u_id u)) (sanitize_path (url_path request)) ws) = None
        \<and> (\<forall>t\<in>set ts. t - t mod 3600 = ws) \<longrightarrow>
        fst (rate_limiter_sequence default_settings request db (Some u) ts g)
          = map (\<lambda>k. if 10 < int k then Inl (RateLimitException ''Rate limit exceeded.'') else Inr ())
              [1..<Suc (length ts)])"
proof (intro conjI impI)
  show "resolve_rate_limit config request db None path g
     = (Inr (ClientHost (client_host request), DEFAULT_RATE_LIMIT_LIMIT config,
             DEFAULT_RATE_LIMIT_PERIOD config), g)"
    by (rule resolve_anonymous)
next
  assume "fault db = None \<and> find (\<lambda>t. Some (t_id t) = u_tier_id u) (tiers db) = None"
  then show "\<exists>msg. resolve_rate_limit config request db (Some u) path g
           = (Inr (UserId (u_id u), DEFAULT_RATE_LIMIT_LIMIT config, DEFAULT_RATE_LIMIT_PERIOD config),
              logger (LogWarning msg) g)"
    using resolve_no_tier by blast
next
  assume "fault db = None \<and> find (\<lambda>t. Some (t_id t) = u_tier_id u) (tiers db) = Some tier
        \<and> find (\<lambda>r. rl_tier_id r = t_id tier \<and> rl_path r = path) (rate_limits db) = None"
  then show "\<exists>msg. resolve_rate_limit config request db (Some u) path g
           = (Inr (UserId (u_id u), DEFAULT_RATE_LIMIT_LIMIT config, DEFAULT_RATE_LIMIT_PERIOD config),
              logger (LogWarning msg) g)"
    using resolve_no_rule by blast
next
  assume "fault db = None \<and> find (\<lambda>t. Some (t_id t) = u_tier_id u) (tiers db) = Some tier
        \<and> find (\<lambda>r. rl_tier_id r = t_id tier \<and> rl_path r = path) (rate_limits db) = Some rule"
  then show "resolve_rate_limit config request db (Some u) path g
           = (Inr (UserId (u_id u), rl_limit rule, rl_period rule), g)"
    using resolve_rule by blast
next
  assume "resolve_rate_limit config request db user (sanitize_path (url_path request)) g
          = (Inr (uid, limit, period), g1)"
  then show "rate_limiter config now request db user g =
           (case is_rate_limited now uid (sanitize_path (url_path request)) limit period g1 of
              (Inl e, g2) \<Rightarrow> (Inl e, g2)
            | (Inr is_limited, g2) \<Rightarrow>
                if is_limited then (Inl (RateLimitException ''Rate limit exceeded.''), g2)
                else (Inr (), g2))"
    by (rule rate_limiter_resolved)
next
  show "DEFAULT_RATE_LIMIT_LIMIT default_settings = 10" by (simp add: default_settings_def)
next
  show "DEFAULT_RATE_LIMIT_PERIOD default_settings = 3600" by (simp add: default_settings_def)
next
  assume "fault db = None \<and> find (\<lambda>t. Some (t_id t) = u_tier_id u) (tiers db) = None
        \<and> client g = Some r \<and> reachable r
        \<and> entries r (ratelimit_key (UserId (u_id u)) (sanitize_path (url_path request)) ws) = None
        \<and> (\<forall>t\<in>set ts. t - t mod 3600 = ws)"
  then show "fst (rate_limiter_sequence default_settings request db (Some u) ts g)
          = map (\<lambda>k. if 10 < int k then Inl (RateLimitException ''Rate limit exceeded.'') else Inr ())
              [1..<Suc (length ts)]"
    using rate_limiter_sequence_no_tier by blast
qed

theorem rate_limiter_tier_resolution_witness:
  "fst (rate_limiter_sequence default_settings
          \<lparr>authorization = None, url_path = ''/users'', client_host = ''10.0.0.1''\<rparr>
          \<lparr>fault = None, tiers = [\<lparr>t_id = 1, t_name = ''free''\<rparr>],
           rate_limits = [\<lparr>rl_id = 1, rl_tier_id = 1, rl_name = ''free_posts'', rl_path = ''posts'',
                           rl_limit = 5, rl_period = 60\<rparr>],
           users = [], token_blacklist = [], next_rate_limit_id = 2, next_token_blacklist_id = 1\<rparr>
          (Some \<lparr>u_id = 42, u_username = ''ann'', u_email = ''ann@example.org'', u_is_deleted = False,
                 u_is_superuser = False, u_tier_id = None\<rparr>)
          [3600, 3601, 3602, 3603, 3604, 3605, 3606, 3607, 3608, 3609, 7199]
          \<lparr>client = Some \<lparr>reachable = True, entries = \<lambda>k. None\<rparr>, log = []\<rparr>)
     = [Inr (), Inr (), Inr (), Inr (), Inr (), Inr (), Inr (), Inr (), Inr (), Inr (),
        Inl (RateLimitException ''Rate limit exceeded.'')]
   \<and> resolve_rate_limit default_settings
          \<lparr>authorization = None, url_path = ''/posts/'', client_host = ''10.0.0.1''\<rparr>
          \<lparr>fault = None, tiers = [\<lparr>t_id = 1, t_name = ''free''\<rparr>],
           rate_limits = [\<lparr>rl_id = 1, rl_tier_id = 1, rl_name = ''free_posts'', rl_path = ''posts'',
                           rl_limit = 5, rl_period = 60\<rparr>],
           users = [], token_blacklist = [], next_rate_limit_id = 2, next_token_blacklist_id = 1\<rparr>
          (Some \<lparr>u_id = 43, u_username = ''bob'', u_email = ''bob@example.org'', u_is_deleted = False,
                 u_is_superuser = False, u_tier_id = Some 1\<rparr>)
          ''posts''
          \<lparr>client = None, log = []\<rparr>
     = (Inr (UserId 43, 5, 60), \<lparr>client = None, log = []\<rparr>)"
proof -
  have u: "[1..<Suc (length [3600::int, 3601, 3602, 3603, 3604, 3605, 3606, 3607, 3608, 3609, 7199])]
           = [1, 2, 3, 4, 5, 6, 7, 8, 9, 10, 11]"
    by (simp add: upt_conv_Cons)
  have 1: "fst (rate_limiter_sequence default_settings
          \<lparr>authorization = None, url_path = ''/users'', client_host = ''10.0.0.1''\<rparr>
          \<lparr>fault = None, tiers = [\<lparr>t_id = 1, t_name = ''free''\<rparr>],
           rate_limits = [\<lparr>rl_id = 1, rl_tier_id = 1, rl_name = ''free_posts'', rl_path = ''posts'',
                           rl_limit = 5, rl_period = 60\<rparr>],
           users = [], token_blacklist = [], next_rate_limit_id = 2, next_token_blacklist_id = 1\<rparr>
          (Some \<lparr>u_id = 42, u_username = ''ann'', u_email = ''ann@example.org'', u_is_deleted = False,
                 u_is_superuser = False, u_tier_id = None\<rparr>)
          [3600, 3601, 3602, 3603, 3604, 3605, 3606, 3607, 3608, 3609, 7199]
          \<lparr>client = Some \<lparr>reachable = True, entries = \<lambda>k. None\<rparr>, log = []\<rparr>)
     = [Inr (), Inr (), Inr (), Inr (), Inr (), Inr (), Inr (), Inr (), Inr (), Inr (),
        Inl (RateLimitException ''Rate limit exceeded.'')]"
    using rate_limiter_tier_resolution
      [where db = "\<lparr>fault = None, tiers = [\<lparr>t_id = 1, t_name = ''free''\<rparr>],
           rate_limits = [\<lparr>rl_id = 1, rl_tier_id = 1, rl_name = ''free_posts'', rl_path = ''posts'',
                           rl_limit = 5, rl_period = 60\<rparr>],
           users = [], token_blacklist = [], next_rate_limit_id = 2, next_token_blacklist_id = 1\<rparr>"
         and u = "\<lparr>u_id = 42, u_username = ''ann'', u_email = ''ann@example.org'', u_is_deleted = False,
                 u_is_superuser = False, u_tier_id = None\<rparr>"
         and request = "\<lparr>authorization = None, url_path = ''/users'', client_host = ''10.0.0.1''\<rparr>"
         and g = "\<lparr>client = Some \<lparr>reachable = True, entries = \<lambda>k. None\<rparr>, log = []\<rparr>"
         and r = "\<lparr>reachable = True, entries = \<lambda>k. None\<rparr>"
         and ws = 3600
         and ts = "[3600, 3601, 3602, 3603, 3604, 3605, 3606, 3607, 3608, 3609, 7199]",
       THEN conjunct2, THEN conjunct2, THEN conjunct2, THEN conjunct2, THEN conjunct2,
       THEN conjunct2, THEN conjunct2]
    unfolding u by simp
  have 2: "resolve_rate_limit default_settings
          \<lparr>authorization = None, url_path = ''/posts/'', client_host = ''10.0.0.1''\<rparr>
          \<lparr>fault = None, tiers = [\<lparr>t_id = 1, t_name = ''free''\<rparr>],
           rate_limits = [\<lparr>rl_id = 1, rl_tier_id = 1, rl_name = ''free_posts'', rl_path = ''posts'',
                           rl_limit = 5, rl_period = 60\<rparr>],
           users = [], token_blacklist = [], next_rate_limit_id = 2, next_token_blacklist_id = 1\<rparr>
          (Some \<lparr>u_id = 43, u_username = ''bob'', u_email = ''bob@example.org'', u_is_deleted = False,
                 u_is_superuser = False, u_tier_id = Some 1\<rparr>)
          ''posts''
          \<lparr>client = None, log = []\<rparr>
     = (Inr (UserId 43, 5, 60), \<lparr>client = None, log = []\<rparr>)"
    using rate_limiter_tier_resolution
      [where db = "\<lparr>fault = None, tiers = [\<lparr>t_id = 1, t_name = ''free''\<rparr>],
           rate_limits = [\<lparr>rl_id = 1, rl_tier_id = 1, rl_name = ''free_posts'', rl_path = ''posts'',
                           rl_limit = 5, rl_period = 60\<rparr>],
           users = [], token_blacklist = [], next_rate_limit_id = 2, next_token_blacklist_id = 1\<rparr>"
         and u = "\<lparr>u_id = 43, u_username = ''bob'', u_email = ''bob@example.org'', u_is_deleted = False,
                 u_is_superuser = False, u_tier_id = Some 1\<rparr>"
         and request = "\<lparr>authorization = None, url_path = ''/posts/'', client_host = ''10.0.0.1''\<rparr>"
         and g = "\<lparr>client = None, log = []\<rparr>"
         and config = default_settings
         and path = "''posts''"
         and tier = "\<lparr>t_id = 1, t_name = ''free''\<rparr>"
         and rule = "\<lparr>rl_id = 1, rl_tier_id = 1, rl_name = ''free_posts'', rl_path = ''posts'',
                           rl_limit = 5, rl_period = 60\<rparr>",
       THEN conjunct2, THEN conjunct2, THEN conjunct2, THEN conjunct1]
    by simp
  from 1 2 show ?thesis by (rule conjI)
qed

section \<open>Properties of the token blacklist\<close>







section \<open>Properties of optional authentication\<close>

lemma get_optional_user_handlers:
  assumes "authorization request = Some token" "token \<noteq> []"
    and "get_optional_user_try jwt_decode token db = Inl exc"
  shows "fst (get_optional_user jwt_decode request db g) = Inr None"
  using assms by (simp add: get_optional_user_def split: option.splits)

lemma get_optional_user_returns:
  "\<exists>user g'. get_optional_user jwt_decode request db g = (Inr user, g')"
proof (cases "authorization request")
  case None
  then show ?thesis by (simp add: get_optional_user_def)
next
  case (Some token)
  note h = this
  show ?thesis
  proof (cases "token = []")
    case True
    with h show ?thesis by (simp add: get_optional_user_def)
  next
    case False
    note t = this
    show ?thesis
    proof (cases "get_optional_user_try jwt_decode token db")
      case (Inr user)
      with h t show ?thesis by (simp add: get_optional_user_def)
    next
      case (Inl exc)
      with h t show ?thesis
        by (cases "status_code exc") (simp_all add: get_optional_user_def)
    qed
  qed
qed

lemma get_optional_user_try_scheme:
  "str_lower (fst (str_partition token)) \<noteq> ''bearer'' \<or> snd (snd (str_partition token)) = [] \<Longrightarrow>
   get_optional_user_try jwt_decode token db = Inr None"
  by (cases "str_partition token" rule: prod_cases3) (auto simp: get_optional_user_try_def)

lemma get_optional_user_try_invalid:
  "\<forall>token_data. verify_token jwt_decode (snd (snd (str_partition token))) db \<noteq> Inr (Some token_data) \<Longrightarrow>
   get_optional_user_try jwt_decode token db \<noteq> Inr (Some user)"
proof -
  obtain token_type sep token_value where fields: "str_partition token = (token_type, sep, token_value)"
    by (rule prod_cases3)
  assume a: "\<forall>token_data. verify_token jwt_decode (snd (snd (str_partition token))) db \<noteq> Inr (Some token_data)"
  show ?thesis
  proof (cases "verify_token jwt_decode token_value db")
    case (Inl e)
    with fields show ?thesis by (simp add: get_optional_user_try_def)
  next
    case (Inr v)
    with a fields have "v = None" by (cases v) simp_all
    with Inr fields show ?thesis by (simp add: get_optional_user_try_def)
  qed
qed

lemma get_optional_user_not_authenticated:
  assumes "authorization request = Some token"
    and "\<And>user. get_optional_user_try jwt_decode token db \<noteq> Inr (Some user)"
  shows "fst (get_optional_user jwt_decode request db g) = Inr None"
proof (cases "token = []")
  case True
  with assms(1) show ?thesis by (simp add: get_optional_user_def)
next
  case False
  note t = this
  show ?thesis
  proof (cases "get_optional_user_try jwt_decode token db")
    case (Inl exc)
    with assms(1) t show ?thesis by (rule get_optional_user_handlers)
  next
    case (Inr v)
    with assms(2) have "v = None" by (cases v) blast+
    with Inr assms(1) t show ?thesis by (simp add: get_optional_user_def)
  qed
qed

text \<open>
  C6: \<open>get_optional_user\<close> never raises: whatever the request, the database and the
  decoder do, it returns a value. That value is \<open>None\<close>, the anonymous identity, when the
  \<open>Authorization\<close> header is missing, when its scheme is not \<open>Bearer\<close> (in any letter
  case), when the token part is empty, when \<open>verify_token\<close> does not accept the token
  (it returns \<open>None\<close> or raises), and when anything in the \<open>try\<close> block raises; an
  exception that is not an HTTP 401 is logged as an error.
\<close>

theorem get_optional_user_never_raises:
  "(\<exists>user g'. get_optional_user jwt_decode request db g = (Inr user, g'))
   \<and> (authorization request = None \<longrightarrow>
        get_optional_user jwt_decode request db g = (Inr None, g))
   \<and> (authorization request = Some token \<and> str_lower (fst (str_partition token)) \<noteq> ''bearer'' \<longrightarrow>
        get_optional_user jwt_decode request db g = (Inr None, g))
   \<and> (authorization request = Some token \<and> snd (snd (str_partition token)) = [] \<longrightarrow>
        get_optional_user jwt_decode request db g = (Inr None, g))
   \<and> (authorization request = Some token
        \<and> (\<forall>token_data. verify_token jwt_decode (snd (snd (str_partition token))) db
                            \<noteq> Inr (Some token_data)) \<longrightarrow>
        fst (get_optional_user jwt_decode request db g) = Inr None)
   \<and> (authorization request = Some token \<and> token \<noteq> []
        \<and> get_optional_user_try jwt_decode token db = Inl exc \<longrightarrow>
        fst (get_optional_user jwt_decode request db g) = Inr None
        \<and> (status_code exc \<noteq> Some 401 \<longrightarrow>
             (\<exists>msg. snd (get_optional_user jwt_decode request db g) = logger (LogError msg) g)))"
proof (intro conjI impI)
  show "\<exists>user g'. get_optional_user jwt_decode request db g = (Inr user, g')"
    by (rule get_optional_user_returns)
next
  assume "authorization request = None"
  then show "get_optional_user jwt_decode request db g = (Inr None, g)"
    by (simp add: get_optional_user_def)
next
  assume a: "authorization request = Some token \<and> str_lower (fst (str_partition token)) \<noteq> ''bearer''"
  then have "get_optional_user_try jwt_decode token db = Inr None"
    using get_optional_user_try_scheme by blast
  with a show "get_optional_user jwt_decode request db g = (Inr None, g)"
    by (simp add: get_optional_user_def)
next
  assume a: "authorization request = Some token \<and> snd (snd (str_partition token)) = []"
  then have "get_optional_user_try jwt_decode token db = Inr None"
    using get_optional_user_try_scheme by blast
  with a show "get_optional_user jwt_decode request db g = (Inr None, g)"
    by (simp add: get_optional_user_def)
next
  assume a: "authorization request = Some token
        \<and> (\<forall>token_data. verify_token jwt_decode (snd (snd (str_partition token))) db
                            \<noteq> Inr (Some token_data))"
  then have "\<And>user. get_optional_user_try jwt_decode token db \<noteq> Inr (Some user)"
    using get_optional_user_try_invalid by blast
  with a show "fst (get_optional_user jwt_decode request db g) = Inr None"
    using get_optional_user_not_authenticated by blast
next
  assume "authorization request = Some token \<and> token \<noteq> []
        \<and> get_optional_user_try jwt_decode token db = Inl exc"
  then show "fst (get_optional_user jwt_decode request db g) = Inr None"
    using get_optional_user_handlers by blast
next
  assume a: "authorization request = Some token \<and> token \<noteq> []
        \<and> get_optional_user_try jwt_decode token db = Inl exc"
    and s: "status_code exc \<noteq> Some 401"
  show "\<exists>msg. snd (get_optional_user jwt_decode request db g) = logger (LogError msg) g"
  proof (cases "status_code exc")
    case None
    with a have "snd (get_optional_user jwt_decode request db g)
        = logger (LogError (''Unexpected error in get_optional_user: '' @ str_exn exc)) g"
      by (simp add: get_optional_user_def)
    then show ?thesis by (rule exI)
  next
    case (Some code)
    with a s have "snd (get_optional_user jwt_decode request db g)
        = logger (LogError (''Unexpected HTTPException in get_optional_user: '' @ str_exn exc)) g"
      by (simp add: get_optional_user_def)
    then show ?thesis by (rule exI)
  qed
qed

theorem get_optional_user_never_raises_witness:
  "get_optional_user (\<lambda>t. Inr \<lparr>payload_sub = Some ''ann'', payload_exp = Some 2000\<rparr>)
     \<lparr>authorization = Some ''Basic abc'', url_path = ''/users'', client_host = ''10.0.0.1''\<rparr>
     \<lparr>fault = None, tiers = [], rate_limits = [], users = [], token_blacklist = [],
      next_rate_limit_id = 1, next_token_blacklist_id = 1\<rparr>
     \<lparr>client = None, log = []\<rparr>
     = (Inr None, \<lparr>client = None, log = []\<rparr>)
   \<and> fst (get_optional_user (\<lambda>t. Inl (JWTError ''Signature verification failed.''))
     \<lparr>authorization = Some ''Bearer tok'', url_path = ''/users'', client_host = ''10.0.0.1''\<rparr>
     \<lparr>fault = None, tiers = [], rate_limits = [], users = [], token_blacklist = [],
      next_rate_limit_id = 1, next_token_blacklist_id = 1\<rparr>
     \<lparr>client = None, log = []\<rparr>) = Inr None
   \<and> fst (get_optional_user (\<lambda>t. Inr \<lparr>payload_sub = Some ''ann'', payload_exp = Some 2000\<rparr>)
     \<lparr>authorization = Some ''Bearer tok'', url_path = ''/users'', client_host = ''10.0.0.1''\<rparr>
     \<lparr>fault = Some ''connection refused'', tiers = [], rate_limits = [], users = [], token_blacklist = [],
      next_rate_limit_id = 1, next_token_blacklist_id = 1\<rparr>
     \<lparr>client = None, log = []\<rparr>) = Inr None"
proof -
  have p: "str_partition ''Basic abc'' = (''Basic'', '' '', ''abc'')"
    "str_partition ''Bearer tok'' = (''Bearer'', '' '', ''tok'')"
    by (simp_all add: str_partition_def)
  have l: "str_lower ''Basic'' = ''basic''" "str_lower ''Bearer'' = ''bearer''"
    by (simp_all add: str_lower_def)
  have 1: "get_optional_user (\<lambda>t. Inr \<lparr>payload_sub = Some ''ann'', payload_exp = Some 2000\<rparr>)
     \<lparr>authorization = Some ''Basic abc'', url_path = ''/users'', client_host = ''10.0.0.1''\<rparr>
     \<lparr>fault = None, tiers = [], rate_limits = [], users = [], token_blacklist = [],
      next_rate_limit_id = 1, next_token_blacklist_id = 1\<rparr>
     \<lparr>client = None, log = []\<rparr>
     = (Inr None, \<lparr>client = None, log = []\<rparr>)"
    using get_optional_user_never_raises
      [where request = "\<lparr>authorization = Some ''Basic abc'', url_path = ''/users'', client_host = ''10.0.0.1''\<rparr>"
         and token = "''Basic abc''"
         and g = "\<lparr>client = None, log = []\<rparr>",
       THEN conjunct2, THEN conjunct2, THEN conjunct1]
    by (simp add: p l)
  have 2: "fst (get_optional_user (\<lambda>t. Inl (JWTError ''Signature verification failed.''))
     \<lparr>authorization = Some ''Bearer tok'', url_path = ''/users'', client_host = ''10.0.0.1''\<rparr>
     \<lparr>fault = None, tiers = [], rate_limits = [], users = [], token_blacklist = [],
      next_rate_limit_id = 1, next_token_blacklist_id = 1\<rparr>
     \<lparr>client = None, log = []\<rparr>) = Inr None"
    using get_optional_user_never_raises
      [where request = "\<lparr>authorization = Some ''Bearer tok'', url_path = ''/users'', client_host = ''10.0.0.1''\<rparr>"
         and token = "''Bearer tok''"
         and jwt_decode = "\<lambda>t. Inl (JWTError ''Signature verification failed.'')"
         and db = "\<lparr>fault = None, tiers = [], rate_limits = [], users = [], token_blacklist = [],
                    next_rate_limit_id = 1, next_token_blacklist_id = 1\<rparr>"
         and g = "\<lparr>client = None, log = []\<rparr>",
       THEN conjunct2, THEN conjunct2, THEN conjunct2, THEN conjunct2, THEN conjunct1]
    by (simp add: p verify_token_def crud_exists_def)
  have 3: "fst (get_optional_user (\<lambda>t. Inr \<lparr>payload_sub = Some ''ann'', payload_exp = Some 2000\<rparr>)
     \<lparr>authorization = Some ''Bearer tok'', url_path = ''/users'', client_host = ''10.0.0.1''\<rparr>
     \<lparr>fault = Some ''connection refused'', tiers = [], rate_limits = [], users = [], token_blacklist = [],
      next_rate_limit_id = 1, next_token_blacklist_id = 1\<rparr>
     \<lparr>client = None, log = []\<rparr>) = Inr None"
    using get_optional_user_never_raises
      [where request = "\<lparr>authorization = Some ''Bearer tok'', url_path = ''/users'', client_host = ''10.0.0.1''\<rparr>"
         and token = "''Bearer tok''"
         and jwt_decode = "\<lambda>t. Inr \<lparr>payload_sub = Some ''ann'', payload_exp = Some 2000\<rparr>"
         and db = "\<lparr>fault = Some ''connection refused'', tiers = [], rate_limits = [], users = [],
                    token_blacklist = [], next_rate_limit_id = 1, next_token_blacklist_id = 1\<rparr>"
         and exc = "OperationalError ''connection refused''"
         and g = "\<lparr>client = None, log = []\<rparr>",
       THEN conjunct2, THEN conjunct2, THEN conjunct2, THEN conjunct2, THEN conjunct2]
    by (simp add: p l get_optional_user_try_def verify_token_def crud_exists_def)
  from 1 2 3 show ?thesis by simp
qed

section \<open>Properties of the rate-limit endpoints\<close>

lemma patch_rate_limit_path_taken:
  assumes "fault db = None"
    and "find (\<lambda>t. t_name t = tier_name) (tiers db) = Some db_tier"
    and "find (\<lambda>r. rl_tier_id r = t_id db_tier \<and> rl_id r = id') (rate_limits db) = Some db_rate_limit"
    and "other \<in> set (rate_limits db)" "rl_tier_id other = t_id db_tier"
    and "update_path values = Some (rl_path other)"
  shows "patch_rate_limit tier_name id' values db
           = (Inl (DuplicateValueException ''There is already a rate limit for this path''), db)"
proof -
  have "list_ex (\<lambda>r. rl_tier_id r = t_id db_tier \<and> Some (rl_path r) = update_path values)
          (rate_limits db)"
    unfolding list_ex_iff using assms(4,5,6) by (intro bexI [of _ other]) simp_all
  with assms(1,2,3) show ?thesis
    by (simp add: patch_rate_limit_def crud_get_def crud_exists_def)
qed

text \<open>
  C9: the path check of \<open>patch_rate_limit\<close> does not leave out the rule that is being
  updated. When the tier and the rule are found, an update whose \<open>path\<close> is the path the
  target rule already has, or the path of any rule of the same tier, raises
  \<open>DuplicateValueException("There is already a rate limit for this path")\<close> and the table
  is left as it was.
\<close>

theorem patch_rate_limit_rejects_own_path:
  assumes "fault db = None"
    and "find (\<lambda>t. t_name t = tier_name) (tiers db) = Some db_tier"
    and "find (\<lambda>r. rl_tier_id r = t_id db_tier \<and> rl_id r = id') (rate_limits db) = Some db_rate_limit"
  shows "(update_path values = Some (rl_path db_rate_limit) \<longrightarrow>
            patch_rate_limit tier_name id' values db
              = (Inl (DuplicateValueException ''There is already a rate limit for this path''), db))
         \<and> (\<forall>other\<in>set (rate_limits db).
              rl_tier_id other = t_id db_tier \<and> update_path values = Some (rl_path other) \<longrightarrow>
              patch_rate_limit tier_name id' values db
                = (Inl (DuplicateValueException ''There is already a rate limit for this path''), db))"
proof (intro conjI impI ballI)
  assume p: "update_path values = Some (rl_path db_rate_limit)"
  from assms(3) have m: "db_rate_limit \<in> set (rate_limits db)"
    and t: "rl_tier_id db_rate_limit = t_id db_tier"
    by (auto simp: find_Some_iff)
  from patch_rate_limit_path_taken [OF assms m t p]
  show "patch_rate_limit tier_name id' values db
              = (Inl (DuplicateValueException ''There is already a rate limit for this path''), db)" .
next
  fix other
  assume "other \<in> set (rate_limits db)"
    and "rl_tier_id other = t_id db_tier \<and> update_path values = Some (rl_path other)"
  with assms show "patch_rate_limit tier_name id' values db
              = (Inl (DuplicateValueException ''There is already a rate limit for this path''), db)"
    using patch_rate_limit_path_taken by blast
qed

theorem patch_rate_limit_rejects_own_path_witness:
  "patch_rate_limit ''free'' 2
     \<lparr>update_path = Some ''posts'', update_limit = Some 20, update_period = None, update_name = None\<rparr>
     \<lparr>fault = None, tiers = [\<lparr>t_id = 1, t_name = ''free''\<rparr>],
      rate_limits = [\<lparr>rl_id = 1, rl_tier_id = 1, rl_name = ''a'', rl_path = ''users'',
                      rl_limit = 5, rl_period = 60\<rparr>,
                     \<lparr>rl_id = 2, rl_tier_id = 1, rl_name = ''b'', rl_path = ''posts'',
                      rl_limit = 10, rl_period = 60\<rparr>],
      users = [], token_blacklist = [], next_rate_limit_id = 3, next_token_blacklist_id = 1\<rparr>
   = (Inl (DuplicateValueException ''There is already a rate limit for this path''),
      \<lparr>fault = None, tiers = [\<lparr>t_id = 1, t_name = ''free''\<rparr>],
       rate_limits = [\<lparr>rl_id = 1, rl_tier_id = 1, rl_name = ''a'', rl_path = ''users'',
                       rl_limit = 5, rl_period = 60\<rparr>,
                      \<lparr>rl_id = 2, rl_tier_id = 1, rl_name = ''b'', rl_path = ''posts'',
                       rl_limit = 10, rl_period = 60\<rparr>],
       users = [], token_blacklist = [], next_rate_limit_id = 3, next_token_blacklist_id = 1\<rparr>)"
  using patch_rate_limit_rejects_own_path
    [of "\<lparr>fault = None, tiers = [\<lparr>t_id = 1, t_name = ''free''\<rparr>],
      rate_limits = [\<lparr>rl_id = 1, rl_tier_id = 1, rl_name = ''a'', rl_path = ''users'',
                      rl_limit = 5, rl_period = 60\<rparr>,
                     \<lparr>rl_id = 2, rl_tier_id = 1, rl_name = ''b'', rl_path = ''posts'',
                      rl_limit = 10, rl_period = 60\<rparr>],
      users = [], token_blacklist = [], next_rate_limit_id = 3, next_token_blacklist_id = 1\<rparr>"
      "''free''" "\<lparr>t_id = 1, t_name = ''free''\<rparr>" 2
      "\<lparr>rl_id = 2, rl_tier_id = 1, rl_name = ''b'', rl_path = ''posts'',
                      rl_limit = 10, rl_period = 60\<rparr>"
      "\<lparr>update_path = Some ''posts'', update_limit = Some 20, update_period = None,
                      update_name = None\<rparr>",
     THEN conjunct1]
  by simp

lemma crud_rate_limits_update_raises:
  "fst (crud_rate_limits_update db object target_id) = Inl e \<Longrightarrow>
   (\<exists>m. e = OperationalError m) \<or> (\<exists>m. e = IntegrityError m)"
  by (cases "fault db")
     (auto simp: crud_rate_limits_update_def split: if_splits)

lemma patch_rate_limit_reaches_update:
  assumes "fault db = None"
    and "find (\<lambda>t. t_name t = tier_name) (tiers db) = Some db_tier"
    and "find (\<lambda>r. rl_tier_id r = t_id db_tier \<and> rl_id r = id') (rate_limits db) = Some db_rate_limit"
    and "\<not> list_ex (\<lambda>r. rl_tier_id r = t_id db_tier \<and> Some (rl_path r) = update_path values)
             (rate_limits db)"
  shows "patch_rate_limit tier_name id' values db =
     (case crud_rate_limits_update db values (rl_id db_rate_limit) of
        (Inl e, db1) \<Rightarrow> (Inl e, db1)
      | (Inr u, db1) \<Rightarrow> (Inr ''Rate Limit updated'', db1))"
  using assms by (simp add: patch_rate_limit_def crud_get_def crud_exists_def)

lemma patch_rate_limit_raises:
  assumes "fst (patch_rate_limit tier_name id' values db) = Inl e"
  shows "(\<exists>m. e = OperationalError m) \<or> (\<exists>m. e = IntegrityError m)
       \<or> e = NotFoundException ''Tier not found''
       \<or> e = NotFoundException ''Rate Limit not found''
       \<or> e = DuplicateValueException ''There is already a rate limit for this path''"
proof (cases "fault db")
  case (Some m)
  with assms have "e = OperationalError m" by (simp add: patch_rate_limit_def crud_get_def)
  then show ?thesis by blast
next
  case None
  note f = this
  show ?thesis
  proof (cases "find (\<lambda>t. t_name t = tier_name) (tiers db)")
    case None
    with assms f show ?thesis by (simp add: patch_rate_limit_def crud_get_def)
  next
    case (Some db_tier)
    note t = this
    show ?thesis
    proof (cases "find (\<lambda>r. rl_tier_id r = t_id db_tier \<and> rl_id r = id') (rate_limits db)")
      case None
      with assms f t show ?thesis by (simp add: patch_rate_limit_def crud_get_def)
    next
      case (Some db_rate_limit)
      note r = this
      show ?thesis
      proof (cases "list_ex (\<lambda>r. rl_tier_id r = t_id db_tier \<and> Some (rl_path r) = update_path values)
                      (rate_limits db)")
        case True
        with assms f t r show ?thesis
          by (simp add: patch_rate_limit_def crud_get_def crud_exists_def)
      next
        case False
        have "fst (crud_rate_limits_update db values (rl_id db_rate_limit)) = Inl e"
          using assms patch_rate_limit_reaches_update [OF f t r False]
          by (cases "crud_rate_limits_update db values (rl_id db_rate_limit)")
             (auto split: sum.splits)
        then show ?thesis using crud_rate_limits_update_raises by blast
      qed
    qed
  qed
qed

text \<open>
  C10, as stated, fails in its last part: a name that another rule already has does make
  an update fail. The table declares \<open>name\<close> unique, so the update that the endpoint goes
  on to make is refused there: the same request is rejected with the duplicate name
  \<open>a\<close>, and accepted with the unused name \<open>z\<close>.
\<close>

theorem patch_rate_limit_duplicate_name_counterexample:
  "patch_rate_limit ''free'' 2
     \<lparr>update_path = Some ''comments'', update_limit = None, update_period = None,
      update_name = Some ''a''\<rparr>
     \<lparr>fault = None, tiers = [\<lparr>t_id = 1, t_name = ''free''\<rparr>],
      rate_limits = [\<lparr>rl_id = 1, rl_tier_id = 1, rl_name = ''a'', rl_path = ''users'',
                      rl_limit = 5, rl_period = 60\<rparr>,
                     \<lparr>rl_id = 2, rl_tier_id = 1, rl_name = ''b'', rl_path = ''posts'',
                      rl_limit = 10, rl_period = 60\<rparr>],
      users = [], token_blacklist = [], next_rate_limit_id = 3, next_token_blacklist_id = 1\<rparr>
   = (Inl (IntegrityError ''duplicate value in unique column name''),
      \<lparr>fault = None, tiers = [\<lparr>t_id = 1, t_name = ''free''\<rparr>],
       rate_limits = [\<lparr>rl_id = 1, rl_tier_id = 1, rl_name = ''a'', rl_path = ''users'',
                       rl_limit = 5, rl_period = 60\<rparr>,
                      \<lparr>rl_id = 2, rl_tier_id = 1, rl_name = ''b'', rl_path = ''posts'',
                       rl_limit = 10, rl_period = 60\<rparr>],
       users = [], token_blacklist = [], next_rate_limit_id = 3, next_token_blacklist_id = 1\<rparr>)
   \<and> fst (patch_rate_limit ''free'' 2
     \<lparr>update_path = Some ''comments'', update_limit = None, update_period = None,
      update_name = Some ''z''\<rparr>
     \<lparr>fault = None, tiers = [\<lparr>t_id = 1, t_name = ''free''\<rparr>],
      rate_limits = [\<lparr>rl_id = 1, rl_tier_id = 1, rl_name = ''a'', rl_path = ''users'',
                      rl_limit = 5, rl_period = 60\<rparr>,
                     \<lparr>rl_id = 2, rl_tier_id = 1, rl_name = ''b'', rl_path = ''posts'',
                      rl_limit = 10, rl_period = 60\<rparr>],
      users = [], token_blacklist = [], next_rate_limit_id = 3, next_token_blacklist_id = 1\<rparr>)
   = Inr ''Rate Limit updated''"
  by (simp add: patch_rate_limit_def crud_get_def crud_exists_def crud_rate_limits_update_def)

text \<open>
  C10, amended: in \<open>patch_rate_limit\<close> the branch that raises
  \<open>DuplicateValueException("There is already a rate limit with this name")\<close> is never
  taken: for every input the call raises, if it raises, a database error, one of the two
  \<open>NotFoundException\<close>s or the duplicate-path exception. The guard before that branch
  tests \<open>db_rate_limit_path\<close> again, and the outcome of the unfiltered \<open>exists()\<close> is not
  used. So the endpoint itself never refuses an update for its name: when the tier and the
  rule are found and no rule of the tier has the new path, the outcome is that of
  \<open>crud_rate_limits.update\<close>, whatever the name.
\<close>

theorem patch_rate_limit_name_branch_dead:
  "fst (patch_rate_limit tier_name id' values db)
     \<noteq> Inl (DuplicateValueException ''There is already a rate limit with this name'')
   \<and> (fault db = None
        \<and> find (\<lambda>t. t_name t = tier_name) (tiers db) = Some db_tier
        \<and> find (\<lambda>r. rl_tier_id r = t_id db_tier \<and> rl_id r = id') (rate_limits db) = Some db_rate_limit
        \<and> \<not> list_ex (\<lambda>r. rl_tier_id r = t_id db_tier \<and> Some (rl_path r) = update_path values)
               (rate_limits db) \<longrightarrow>
      patch_rate_limit tier_name id' values db =
        (case crud_rate_limits_update db values (rl_id db_rate_limit) of
           (Inl e, db1) \<Rightarrow> (Inl e, db1)
         | (Inr u, db1) \<Rightarrow> (Inr ''Rate Limit updated'', db1)))"
proof (intro conjI impI)
  show "fst (patch_rate_limit tier_name id' values db)
     \<noteq> Inl (DuplicateValueException ''There is already a rate limit with this name'')"
  proof
    assume "fst (patch_rate_limit tier_name id' values db)
       = Inl (DuplicateValueException ''There is already a rate limit with this name'')"
    then have "(\<exists>m. DuplicateValueException ''There is already a rate limit with this name'' = OperationalError m)
       \<or> (\<exists>m. DuplicateValueException ''There is already a rate limit with this name'' = IntegrityError m)
       \<or> DuplicateValueException ''There is already a rate limit with this name''
            = NotFoundException ''Tier not found''
       \<or> DuplicateValueException ''There is already a rate limit with this name''
            = NotFoundException ''Rate Limit not found''
       \<or> DuplicateValueException ''There is already a rate limit with this name''
            = DuplicateValueException ''There is already a rate limit for this path''"
      by (rule patch_rate_limit_raises)
    then show False by simp
  qed
next
  assume "fault db = None
        \<and> find (\<lambda>t. t_name t = tier_name) (tiers db) = Some db_tier
        \<and> find (\<lambda>r. rl_tier_id r = t_id db_tier \<and> rl_id r = id') (rate_limits db) = Some db_rate_limit
        \<and> \<not> list_ex (\<lambda>r. rl_tier_id r = t_id db_tier \<and> Some (rl_path r) = update_path values)
               (rate_limits db)"
  then show "patch_rate_limit tier_name id' values db =
        (case crud_rate_limits_update db values (rl_id db_rate_limit) of
           (Inl e, db1) \<Rightarrow> (Inl e, db1)
         | (Inr u, db1) \<Rightarrow> (Inr ''Rate Limit updated'', db1))"
    using patch_rate_limit_reaches_update by blast
qed

theorem patch_rate_limit_name_branch_dead_witness:
  "patch_rate_limit ''free'' 2
     \<lparr>update_path = Some ''comments'', update_limit = None, update_period = None,
      update_name = Some ''z''\<rparr>
     \<lparr>fault = None, tiers = [\<lparr>t_id = 1, t_name = ''free''\<rparr>],
      rate_limits = [\<lparr>rl_id = 1, rl_tier_id = 1, rl_name = ''a'', rl_path = ''users'',
                      rl_limit = 5, rl_period = 60\<rparr>,
                     \<lparr>rl_id = 2, rl_tier_id = 1, rl_name = ''b'', rl_path = ''posts'',
                      rl_limit = 10, rl_period = 60\<rparr>],
      users = [], token_blacklist = [], next_rate_limit_id = 3, next_token_blacklist_id = 1\<rparr>
   = (Inr ''Rate Limit updated'',
      \<lparr>fault = None, tiers = [\<lparr>t_id = 1, t_name = ''free''\<rparr>],
       rate_limits = [\<lparr>rl_id = 1, rl_tier_id = 1, rl_name = ''a'', rl_path = ''users'',
                       rl_limit = 5, rl_period = 60\<rparr>,
                      \<lparr>rl_id = 2, rl_tier_id = 1, rl_name = ''z'', rl_path = ''comments'',
                       rl_limit = 10, rl_period = 60\<rparr>],
       users = [], token_blacklist = [], next_rate_limit_id = 3, next_token_blacklist_id = 1\<rparr>)"
  using patch_rate_limit_name_branch_dead
    [of "''free''" 2
      "\<lparr>update_path = Some ''comments'', update_limit = None, update_period = None,
        update_name = Some ''z''\<rparr>"
      "\<lparr>fault = None, tiers = [\<lparr>t_id = 1, t_name = ''free''\<rparr>],
      rate_limits = [\<lparr>rl_id = 1, rl_tier_id = 1, rl_name = ''a'', rl_path = ''users'',
                      rl_limit = 5, rl_period = 60\<rparr>,
                     \<lparr>rl_id = 2, rl_tier_id = 1, rl_name = ''b'', rl_path = ''posts'',
                      rl_limit = 10, rl_period = 60\<rparr>],
      users = [], token_blacklist = [], next_rate_limit_id = 3, next_token_blacklist_id = 1\<rparr>"
      "\<lparr>t_id = 1, t_name = ''free''\<rparr>"
      "\<lparr>rl_id = 2, rl_tier_id = 1, rl_name = ''b'', rl_path = ''posts'',
                      rl_limit = 10, rl_period = 60\<rparr>",
     THEN conjunct2]
  by (simp add: crud_rate_limits_update_def apply_update_def)

section \<open>One rule per tier and path\<close>

lemma crud_rate_limits_update_failed:
  "fst (crud_rate_limits_update db object target_id) = Inl e \<Longrightarrow>
   snd (crud_rate_limits_update db object target_id) = db"
  by (cases "fault db") (auto simp: crud_rate_limits_update_def split: if_splits)

lemma updated_rows_distinct:
  assumes d: "distinct (map (\<lambda>r. (rl_tier_id r, rl_path r)) rows)"
    and ids: "distinct (map rl_id rows)"
    and target: "target \<in> set rows"
    and free: "\<not> list_ex (\<lambda>r. rl_tier_id r = rl_tier_id target \<and> Some (rl_path r) = update_path object) rows"
  shows "distinct (map (\<lambda>r. (rl_tier_id r, rl_path r))
           (map (\<lambda>r. if rl_id r = rl_id target then apply_update object r else r) rows))"
proof -
  let ?f = "\<lambda>r. (rl_tier_id r, rl_path r)"
  let ?u = "\<lambda>r. if rl_id r = rl_id target then apply_update object r else r"
  from d have dr: "distinct rows" and inj: "inj_on ?f (set rows)"
    by (simp_all add: distinct_map)
  from ids have inj_id: "inj_on rl_id (set rows)" by (simp add: distinct_map)
  have same: "\<And>x. x \<in> set rows \<Longrightarrow> rl_id x = rl_id target \<Longrightarrow> x = target"
    using inj_id target by (meson inj_onD)
  have "inj_on (?f \<circ> ?u) (set rows)"
  proof (rule inj_onI)
    fix x y
    assume x: "x \<in> set rows" and y: "y \<in> set rows" and e: "(?f \<circ> ?u) x = (?f \<circ> ?u) y"
    show "x = y"
    proof (cases "update_path object")
      case None
      then have "\<And>r. ?f (?u r) = ?f r" by (simp add: apply_update_def)
      with e have "?f x = ?f y" by simp
      with inj x y show ?thesis by (meson inj_onD)
    next
      case (Some p)
      from free Some have np: "\<And>r. r \<in> set rows \<Longrightarrow> rl_tier_id r = rl_tier_id target \<Longrightarrow> rl_path r \<noteq> p"
        by (auto simp: list_ex_iff)
      have upd: "?f (apply_update object target) = (rl_tier_id target, p)"
        using Some by (simp add: apply_update_def)
      show ?thesis
      proof (cases "rl_id x = rl_id target")
        case True
        then have xt: "x = target" using same x by blast
        show ?thesis
        proof (cases "rl_id y = rl_id target")
          case True
          then have "y = target" using same y by blast
          with xt show ?thesis by simp
        next
          case False
          with e xt upd have "(rl_tier_id target, p) = ?f y" by simp
          then have "rl_tier_id y = rl_tier_id target" "rl_path y = p" by simp_all
          with np y show ?thesis by blast
        qed
      next
        case False
        note nx = this
        show ?thesis
        proof (cases "rl_id y = rl_id target")
          case True
          then have yt: "y = target" using same y by blast
          with e nx upd have "?f x = (rl_tier_id target, p)" by simp
          then have "rl_tier_id x = rl_tier_id target" "rl_path x = p" by simp_all
          with np x show ?thesis by blast
        next
          case False
          with e nx have "?f x = ?f y" by simp
          with inj x y show ?thesis by (meson inj_onD)
        qed
      qed
    qed
  qed
  with dr have "distinct (map (?f \<circ> ?u) rows)" by (simp add: distinct_map)
  then show ?thesis by (simp only: map_map)
qed

lemma patch_rate_limit_keeps_invariant:
  assumes "one_rule_per_tier_path db" "distinct (map rl_id (rate_limits db))"
  shows "one_rule_per_tier_path (snd (patch_rate_limit tier_name id' values db))"
proof (cases "fault db")
  case (Some m)
  with assms(1) show ?thesis by (simp add: patch_rate_limit_def crud_get_def)
next
  case None
  note f = this
  show ?thesis
  proof (cases "find (\<lambda>t. t_name t = tier_name) (tiers db)")
    case None
    with assms(1) f show ?thesis by (simp add: patch_rate_limit_def crud_get_def)
  next
    case (Some db_tier)
    note t = this
    show ?thesis
    proof (cases "find (\<lambda>r. rl_tier_id r = t_id db_tier \<and> rl_id r = id') (rate_limits db)")
      case None
      with assms(1) f t show ?thesis by (simp add: patch_rate_limit_def crud_get_def)
    next
      case (Some db_rate_limit)
      note r = this
      then have m: "db_rate_limit \<in> set (rate_limits db)"
        and tr: "rl_tier_id db_rate_limit = t_id db_tier"
        by (auto simp: find_Some_iff)
      show ?thesis
      proof (cases "list_ex (\<lambda>r. rl_tier_id r = t_id db_tier \<and> Some (rl_path r) = update_path values)
                      (rate_limits db)")
        case True
        with assms(1) f t r show ?thesis
          by (simp add: patch_rate_limit_def crud_get_def crud_exists_def)
      next
        case False
        note free = this
        let ?U = "crud_rate_limits_update db values (rl_id db_rate_limit)"
        have p: "snd (patch_rate_limit tier_name id' values db) = snd ?U"
          using patch_rate_limit_reaches_update [OF f t r free]
          by (cases ?U) (auto split: sum.splits)
        show ?thesis
        proof (cases "fst ?U")
          case (Inl e)
          then have "snd ?U = db" by (rule crud_rate_limits_update_failed)
          with p assms(1) show ?thesis by simp
        next
          case (Inr u)
          then have "snd ?U = db\<lparr>rate_limits :=
              map (\<lambda>r. if rl_id r = rl_id db_rate_limit then apply_update values r else r)
                (rate_limits db)\<rparr>"
            using f by (auto simp: crud_rate_limits_update_def split: if_splits)
          moreover have "distinct (map (\<lambda>r. (rl_tier_id r, rl_path r))
             (map (\<lambda>r. if rl_id r = rl_id db_rate_limit then apply_update values r else r)
                (rate_limits db)))"
            using assms m free tr
            by (intro updated_rows_distinct) (simp_all add: one_rule_per_tier_path_def)
          ultimately show ?thesis using p by (simp add: one_rule_per_tier_path_def)
        qed
      qed
    qed
  qed
qed

lemma erase_rate_limit_keeps_invariant:
  assumes "one_rule_per_tier_path db"
  shows "one_rule_per_tier_path (snd (erase_rate_limit tier_name id' db))"
proof -
  have "distinct (map (\<lambda>r. (rl_tier_id r, rl_path r)) (filter P (rate_limits db)))" for P
    using assms unfolding one_rule_per_tier_path_def by (rule distinct_map_filter)
  then show ?thesis using assms
    by (auto simp: erase_rate_limit_def crud_get_def crud_rate_limits_delete_def one_rule_per_tier_path_def
          split: option.splits)
qed

text \<open>
  C4 does not hold of \<open>write_rate_limit\<close>: it tests only whether the name is taken,
  while \<open>patch_rate_limit\<close> tests the path and keeps the invariant
  (\<open>patch_rate_limit_keeps_invariant\<close>). In a table with one rule for tier 1 and path
  \<open>users\<close>, creating a rule of another name for the same tier and path succeeds, and the
  table then holds two rules for that pair.
\<close>

theorem write_rate_limit_second_rule_for_path:
  "one_rule_per_tier_path
     \<lparr>fault = None, tiers = [\<lparr>t_id = 1, t_name = ''free''\<rparr>],
      rate_limits = [\<lparr>rl_id = 1, rl_tier_id = 1, rl_name = ''a'', rl_path = ''users'',
                      rl_limit = 5, rl_period = 60\<rparr>],
      users = [], token_blacklist = [], next_rate_limit_id = 2, next_token_blacklist_id = 1\<rparr>
   \<and> write_rate_limit ''free''
       \<lparr>create_path = ''users'', create_limit = 100, create_period = 60, create_name = Some ''b''\<rparr>
       \<lparr>fault = None, tiers = [\<lparr>t_id = 1, t_name = ''free''\<rparr>],
        rate_limits = [\<lparr>rl_id = 1, rl_tier_id = 1, rl_name = ''a'', rl_path = ''users'',
                        rl_limit = 5, rl_period = 60\<rparr>],
        users = [], token_blacklist = [], next_rate_limit_id = 2, next_token_blacklist_id = 1\<rparr>
     = (Inr \<lparr>rl_id = 2, rl_tier_id = 1, rl_name = ''b'', rl_path = ''users'',
              rl_limit = 100, rl_period = 60\<rparr>,
        \<lparr>fault = None, tiers = [\<lparr>t_id = 1, t_name = ''free''\<rparr>],
         rate_limits = [\<lparr>rl_id = 1, rl_tier_id = 1, rl_name = ''a'', rl_path = ''users'',
                         rl_limit = 5, rl_period = 60\<rparr>,
                        \<lparr>rl_id = 2, rl_tier_id = 1, rl_name = ''b'', rl_path = ''users'',
                         rl_limit = 100, rl_period = 60\<rparr>],
         users = [], token_blacklist = [], next_rate_limit_id = 3, next_token_blacklist_id = 1\<rparr>)
   \<and> \<not> one_rule_per_tier_path
       \<lparr>fault = None, tiers = [\<lparr>t_id = 1, t_name = ''free''\<rparr>],
        rate_limits = [\<lparr>rl_id = 1, rl_tier_id = 1, rl_name = ''a'', rl_path = ''users'',
                        rl_limit = 5, rl_period = 60\<rparr>,
                       \<lparr>rl_id = 2, rl_tier_id = 1, rl_name = ''b'', rl_path = ''users'',
                        rl_limit = 100, rl_period = 60\<rparr>],
        users = [], token_blacklist = [], next_rate_limit_id = 3, next_token_blacklist_id = 1\<rparr>"
  by (simp add: one_rule_per_tier_path_def write_rate_limit_def crud_get_def crud_exists_def
        crud_rate_limits_create_def Let_def)

end
